theory Spec2Isabelle
  imports Main
begin

section \<open>Python values, exceptions and messages\<close>

text \<open>
  The agent of \<^verbatim>\<open>Phoenix/utils.py\<close> moves JSON-decoded values, chat messages and
  exceptions around. A Python dict is an association list in insertion order (its keys
  are distinct in Python; lookups go through \<open>map_of\<close>). A float is carried as the text
  of its literal, since no arithmetic is done on it.
\<close>

datatype pyval =
    PNone
  | PBool bool
  | PInt int
  | PFloat string
  | PStr string
  | PList "pyval list"
  | PDict "(string \<times> pyval) list"

text \<open>
  Exceptions are instances of Python's \<^verbatim>\<open>Exception\<close>. Those the source itself can
  raise have a constructor of their own: a missing dict key, a keyword-argument mismatch,
  an attribute read on an object without it (for instance \<^verbatim>\<open>None.strip()\<close>), and
  \<^verbatim>\<open>choices[0]\<close> on an empty list. \<open>Raised c\<close> is any exception of class \<open>c\<close>
  coming out of a library or service call.
\<close>

datatype exn =
    KeyError string
  | TypeError
  | AttributeError
  | IndexError
  | Raised string

text \<open>
  A tool call as the chat API returns it: \<^verbatim>\<open>tool_call.id\<close>,
  \<^verbatim>\<open>tool_call.function.name\<close> and \<^verbatim>\<open>tool_call.function.arguments\<close>.
\<close>

datatype tool_call =
  ToolCall (call_id: string) (function_name: string) (function_arguments: string)

text \<open>
  \<^verbatim>\<open>response.choices[i].message\<close>: the content may be \<^verbatim>\<open>None\<close>, and so may the
  list of tool calls.
\<close>

datatype chat_message =
  ChatMessage (content: "string option") (tool_calls: "tool_call list option")

text \<open>
  The conversation holds dicts (what the caller passes and what the loop appends for
  tool results) and the message objects of the model, appended as they are.
\<close>

datatype message =
    Dict "(string \<times> pyval) list"
  | Assistant chat_message

section \<open>The tracer\<close>

datatype span_kind = CHAIN | TOOL | AGENT

datatype status_code = OK | ERROR

datatype snapshot =
    SnapMessages "message list"
  | SnapText "string option"
  | SnapToolCalls "tool_call list"

text \<open>
  The trace is the log of the calls made on spans, in the order they are made. A span is
  named by the position of its \<open>Start\<close> event in the log. \<open>End i None\<close> is the normal exit
  of the \<^verbatim>\<open>with\<close> block of span \<open>i\<close>, \<open>End i (Some e)\<close> its exit by the exception \<open>e\<close>.
\<close>

datatype event =
    Start nat string span_kind
  | SetInput nat snapshot
  | SetOutput nat snapshot
  | SetStatus nat status_code
  | End nat "exn option"

text \<open>
  What a run can change outside the conversation: the world behind the external calls
  (the model service, the parquet file, the in-process database) and the trace.
\<close>

record 'w runtime =
  world :: 'w
  spans :: "event list"

section \<open>External collaborators\<close>

text \<open>
  Every call that leaves the source file is a field of the environment. A call that can
  change or depend on the outside takes the world and returns the new one, next to the
  value returned or the exception raised.

  \<^item> \<open>chat_completions_create tools messages\<close> is
    \<^verbatim>\<open>client.chat.completions.create(model=MODEL, messages=messages[, tools=tools]).choices\<close>,
    as the list of the choices' messages; the flag says whether \<^verbatim>\<open>tools=tools\<close> is passed;
  \<^item> \<open>chat_completions_parse messages\<close> is
    \<^verbatim>\<open>client.beta.chat.completions.parse(..., response_format=VisualizationConfig).choices\<close>,
    as the list of the choices' \<^verbatim>\<open>message.content\<close>, each an object given by the
    attributes that can be read from it;
  \<^item> \<open>read_parquet\<close> is \<^verbatim>\<open>pd.read_parquet\<close>; \<open>duckdb_sql q df\<close> is \<^verbatim>\<open>duckdb.sql(q)\<close>
    run for its effect and \<open>duckdb_sql_df q df\<close> is \<^verbatim>\<open>duckdb.sql(q).df()\<close>, both with the
    local variable \<^verbatim>\<open>df\<close> in scope;
  \<^item> \<open>columns_str\<close>, \<open>df_str\<close>, \<open>df_to_string\<close> render \<^verbatim>\<open>df.columns\<close>,
    \<^verbatim>\<open>str(result)\<close> and \<^verbatim>\<open>result.to_string()\<close>;
  \<^item> \<open>json_loads\<close> is \<^verbatim>\<open>json.loads\<close>, \<open>str_exn\<close> is \<^verbatim>\<open>str(e)\<close>, \<open>py_str\<close> is the text
    \<^verbatim>\<open>str.format\<close> puts for a value that is not a string, \<open>str_strip\<close> is
    \<^verbatim>\<open>str.strip()\<close>.
\<close>

record ('w, 'df) env =
  chat_completions_create :: "bool \<Rightarrow> message list \<Rightarrow> 'w \<Rightarrow> (exn + chat_message list) \<times> 'w"
  chat_completions_parse :: "message list \<Rightarrow> 'w \<Rightarrow> (exn + (string \<times> pyval) list list) \<times> 'w"
  read_parquet :: "string \<Rightarrow> 'w \<Rightarrow> (exn + 'df) \<times> 'w"
  duckdb_sql :: "string \<Rightarrow> 'df \<Rightarrow> 'w \<Rightarrow> (exn + unit) \<times> 'w"
  duckdb_sql_df :: "string \<Rightarrow> 'df \<Rightarrow> 'w \<Rightarrow> (exn + 'df) \<times> 'w"
  columns_str :: "'df \<Rightarrow> string"
  df_str :: "'df \<Rightarrow> string"
  df_to_string :: "'df \<Rightarrow> string"
  json_loads :: "string \<Rightarrow> exn + pyval"
  str_exn :: "exn \<Rightarrow> string"
  py_str :: "pyval \<Rightarrow> string"
  str_strip :: "string \<Rightarrow> string"

section \<open>Sequencing with exceptions\<close>

text \<open>
  A statement is a function from the state to a result and the new state; the result is
  \<open>Inl e\<close> when the statement raises \<open>e\<close>. \<open>seq\<close> runs the next statement unless the
  first one raised.
\<close>

definition ret :: "'a \<Rightarrow> 's \<Rightarrow> (exn + 'a) \<times> 's" where
  "ret v s = (Inr v, s)"

definition lift :: "exn + 'a \<Rightarrow> 's \<Rightarrow> (exn + 'a) \<times> 's" where
  "lift r s = (r, s)"

definition seq ::
  "('s \<Rightarrow> (exn + 'a) \<times> 's) \<Rightarrow> ('a \<Rightarrow> 's \<Rightarrow> (exn + 'b) \<times> 's) \<Rightarrow> 's \<Rightarrow> (exn + 'b) \<times> 's" where
  "seq m f s = (case m s of (Inl e, s') \<Rightarrow> (Inl e, s') | (Inr v, s') \<Rightarrow> f v s')"

definition external :: "('w \<Rightarrow> 'r \<times> 'w) \<Rightarrow> 'w runtime \<Rightarrow> 'r \<times> 'w runtime" where
  "external f rt = (case f (world rt) of (r, w) \<Rightarrow> (r, rt\<lparr>world := w\<rparr>))"

definition getitem0 :: "'a list \<Rightarrow> exn + 'a" where
  "getitem0 xs = (case xs of [] \<Rightarrow> Inl IndexError | x # _ \<Rightarrow> Inr x)"

definition getattr :: "(string \<times> pyval) list \<Rightarrow> string \<Rightarrow> exn + pyval" where
  "getattr obj a = (case map_of obj a of None \<Rightarrow> Inl AttributeError | Some v \<Rightarrow> Inr v)"

definition exn_of :: "exn + 'a \<Rightarrow> exn option" where
  "exn_of r = (case r of Inl e \<Rightarrow> Some e | Inr _ \<Rightarrow> None)"

subsection \<open>Spans\<close>

definition log :: "event \<Rightarrow> 'w runtime \<Rightarrow> 'w runtime" where
  "log ev rt = rt\<lparr>spans := spans rt @ [ev]\<rparr>"

definition span_start :: "string \<Rightarrow> span_kind \<Rightarrow> 'w runtime \<Rightarrow> nat \<times> 'w runtime" where
  "span_start name kind rt = (length (spans rt), log (Start (length (spans rt)) name kind) rt)"

definition span_end :: "nat \<Rightarrow> exn option \<Rightarrow> 'w runtime \<Rightarrow> 'w runtime" where
  "span_end span exc rt = log (End span exc) rt"

definition set_input :: "nat \<Rightarrow> snapshot \<Rightarrow> 'w runtime \<Rightarrow> (exn + unit) \<times> 'w runtime" where
  "set_input span v rt = (Inr (), log (SetInput span v) rt)"

definition set_output :: "nat \<Rightarrow> snapshot \<Rightarrow> 'w runtime \<Rightarrow> (exn + unit) \<times> 'w runtime" where
  "set_output span v rt = (Inr (), log (SetOutput span v) rt)"

definition set_status :: "nat \<Rightarrow> status_code \<Rightarrow> 'w runtime \<Rightarrow> (exn + unit) \<times> 'w runtime" where
  "set_status span c rt = (Inr (), log (SetStatus span c) rt)"

text \<open>
  \<^verbatim>\<open>with tracer.start_as_current_span(name, openinference_span_kind=kind) as span: body\<close>.
  The context manager ends the span when the block is left, whether it returns or raises,
  and lets the exception through.
\<close>

definition with_span ::
  "string \<Rightarrow> span_kind \<Rightarrow> (nat \<Rightarrow> 'w runtime \<Rightarrow> (exn + 'a) \<times> 'w runtime) \<Rightarrow>
   'w runtime \<Rightarrow> (exn + 'a) \<times> 'w runtime" where
  "with_span name kind body rt =
     (case span_start name kind rt of (span, rt1) \<Rightarrow>
        (case body span rt1 of (r, rt2) \<Rightarrow> (r, span_end span (exn_of r) rt2)))"

text \<open>
  The decorators \<^verbatim>\<open>@tracer.tool()\<close> and \<^verbatim>\<open>@tracer.chain()\<close> run the function inside a
  span named after it. What the tracing library records on that span by itself is its
  own business and is not in the log.
\<close>

definition traced ::
  "span_kind \<Rightarrow> string \<Rightarrow> ('w runtime \<Rightarrow> (exn + 'a) \<times> 'w runtime) \<Rightarrow>
   'w runtime \<Rightarrow> (exn + 'a) \<times> 'w runtime" where
  "traced kind name f = with_span name kind (\<lambda>_. f)"

section \<open>String helpers\<close>

text \<open>
  \<^verbatim>\<open>s.replace(old, "")\<close> for a non-empty \<open>old\<close>: the occurrences are removed from left
  to right, without overlap.
\<close>

fun remove_all :: "string \<Rightarrow> string \<Rightarrow> string" where
  "remove_all old [] = []"
| "remove_all old (c # cs) =
     (if old \<noteq> [] \<and> take (length old) (c # cs) = old
      then remove_all old (drop (length old) (c # cs))
      else c # remove_all old cs)"

definition fmt :: "('w, 'df) env \<Rightarrow> pyval \<Rightarrow> string" where
  "fmt env v = (case v of PStr s \<Rightarrow> s | _ \<Rightarrow> py_str env v)"

definition user_message :: "string \<Rightarrow> message" where
  "user_message text = Dict [(''role'', PStr ''user''), (''content'', PStr text)]"

section \<open>The tools\<close>

definition TRANSACTION_DATA_FILE_PATH :: string where
  "TRANSACTION_DATA_FILE_PATH =
     ''/Users/priyanka./Documents/ai-agents/Phoenix/Store_Sales_Price_Elasticity_Promotions_Data.parquet''"

definition SQL_GENERATION_PROMPT :: "string \<Rightarrow> string \<Rightarrow> string \<Rightarrow> string" where
  "SQL_GENERATION_PROMPT prompt columns table_name =
     [CHR 0x0A] @
     ''Generate an SQL query based on a prompt. Do not reply with anything besides the SQL query.'' @
     [CHR 0x0A] @ ''The prompt is : '' @ prompt @
     [CHR 0x0A] @ ''The availabe columns are: '' @ columns @
     [CHR 0x0A] @ ''The table name is: '' @ table_name @ [CHR 0x0A]"

definition generate_sql_query ::
  "('w, 'df) env \<Rightarrow> pyval \<Rightarrow> string \<Rightarrow> string \<Rightarrow> 'w runtime \<Rightarrow> (exn + string option) \<times> 'w runtime" where
  "generate_sql_query env prompt columns table_name =
     seq (external (chat_completions_create env False
            [user_message (SQL_GENERATION_PROMPT (fmt env prompt) columns table_name)])) (\<lambda>choices.
     seq (lift (getitem0 choices)) (\<lambda>message.
     ret (content message)))"

text \<open>
  The body of the \<^verbatim>\<open>try\<close> of \<^verbatim>\<open>lookup_sales_data\<close>. \<^verbatim>\<open>.strip()\<close> on a content that is
  \<^verbatim>\<open>None\<close> raises.
\<close>

definition lookup_sales_data_try ::
  "('w, 'df) env \<Rightarrow> pyval \<Rightarrow> 'w runtime \<Rightarrow> (exn + string) \<times> 'w runtime" where
  "lookup_sales_data_try env prompt =
     seq (external (read_parquet env TRANSACTION_DATA_FILE_PATH)) (\<lambda>df.
     seq (external (duckdb_sql env
            (''CREATE TABLE IF NOT EXISTS '' @ ''sales'' @ '' AS SELECT * FROM df'') df)) (\<lambda>_.
     seq (generate_sql_query env prompt (columns_str env df) ''sales'') (\<lambda>generated.
     seq (lift (case generated of
                  None \<Rightarrow> Inl AttributeError
                | Some text \<Rightarrow>
                    Inr (remove_all ''```'' (remove_all ''```sql'' (str_strip env text))))) (\<lambda>sql_query.
     seq (with_span ''execute_sql_query'' CHAIN (\<lambda>span.
            seq (set_input span (SnapText (Some sql_query))) (\<lambda>_.
            seq (external (duckdb_sql_df env sql_query df)) (\<lambda>result.
            seq (set_output span (SnapText (Some (df_str env result)))) (\<lambda>_.
            seq (set_status span OK) (\<lambda>_.
            ret result)))))) (\<lambda>result.
     ret (df_to_string env result))))))"

definition lookup_sales_data ::
  "('w, 'df) env \<Rightarrow> pyval \<Rightarrow> 'w runtime \<Rightarrow> (exn + string) \<times> 'w runtime" where
  "lookup_sales_data env prompt =
     traced TOOL ''lookup_sales_data'' (\<lambda>rt.
       case lookup_sales_data_try env prompt rt of
         (Inr result, rt') \<Rightarrow> (Inr result, rt')
       | (Inl e, rt') \<Rightarrow> (Inr (''Error accessing data: '' @ str_exn env e), rt'))"

definition DATA_ANALYSIS_PROMPT :: "string \<Rightarrow> string \<Rightarrow> string" where
  "DATA_ANALYSIS_PROMPT data prompt =
     [CHR 0x0A] @ ''Analyse the following data:'' @ data @
     [CHR 0x0A] @ ''Your job is to answer the following question:'' @ prompt @ [CHR 0x0A]"

definition analyze_sales_data ::
  "('w, 'df) env \<Rightarrow> pyval \<Rightarrow> pyval \<Rightarrow> 'w runtime \<Rightarrow> (exn + string) \<times> 'w runtime" where
  "analyze_sales_data env prompt data =
     traced TOOL ''analyze_sales_data'' (
       seq (external (chat_completions_create env False
              [user_message (DATA_ANALYSIS_PROMPT (fmt env data) (fmt env prompt))])) (\<lambda>choices.
       seq (lift (getitem0 choices)) (\<lambda>message.
       ret (case content message of
              None \<Rightarrow> ''No analysis could be generated''
            | Some analysis \<Rightarrow>
                if analysis \<noteq> [] then analysis else ''No analysis could be generated''))))"

definition CHART_CONFIGURATION_PROMPT :: "string \<Rightarrow> string \<Rightarrow> string" where
  "CHART_CONFIGURATION_PROMPT data visualization_goal =
     [CHR 0x0A] @ ''Generate a chart configuration based on this data:'' @ data @
     [CHR 0x0A] @ ''The goal is to show:'' @ visualization_goal @ [CHR 0x0A]"

text \<open>
  The \<^verbatim>\<open>try\<close> of \<^verbatim>\<open>extract_chart_config\<close>: it reads the content of the first choice
  and four attributes of it, and builds the dict. It touches nothing outside.
\<close>

definition extract_chart_config_try ::
  "(string \<times> pyval) list list \<Rightarrow> pyval \<Rightarrow> exn + (string \<times> pyval) list" where
  "extract_chart_config_try choices data =
     (case getitem0 choices of Inl e \<Rightarrow> Inl e | Inr content0 \<Rightarrow>
      case getattr content0 ''chart_type'' of Inl e \<Rightarrow> Inl e | Inr chart_type \<Rightarrow>
      case getattr content0 ''x_axis'' of Inl e \<Rightarrow> Inl e | Inr x_axis \<Rightarrow>
      case getattr content0 ''y_axis'' of Inl e \<Rightarrow> Inl e | Inr y_axis \<Rightarrow>
      case getattr content0 ''title'' of Inl e \<Rightarrow> Inl e | Inr title \<Rightarrow>
        Inr [(''chart_type'', chart_type), (''x_axis'', x_axis), (''y_axis'', y_axis),
             (''title'', title), (''data'', data)])"

definition extract_chart_config ::
  "('w, 'df) env \<Rightarrow> pyval \<Rightarrow> pyval \<Rightarrow> 'w runtime \<Rightarrow>
   (exn + (string \<times> pyval) list) \<times> 'w runtime" where
  "extract_chart_config env data visualization_goal =
     traced CHAIN ''extract_chart_config'' (
       seq (external (chat_completions_parse env
              [user_message (CHART_CONFIGURATION_PROMPT (fmt env data) (fmt env visualization_goal))]))
         (\<lambda>choices.
       ret (case extract_chart_config_try choices data of
              Inr config \<Rightarrow> config
            | Inl _ \<Rightarrow>
                [(''chart_type'', PStr ''line''), (''x_axis'', PStr ''date''),
                 (''y_axis'', PStr ''value''), (''title'', visualization_goal),
                 (''data'', data)])))"

definition CREATE_CHART_PROMPT :: "string \<Rightarrow> string" where
  "CREATE_CHART_PROMPT config =
     [CHR 0x0A] @ ''Write python code to create a chart based on the following configuration.'' @
     [CHR 0x0A] @ ''Only return the code, no other text.'' @
     [CHR 0x0A] @ ''config:'' @ config @ [CHR 0x0A]"

definition create_chart ::
  "('w, 'df) env \<Rightarrow> (string \<times> pyval) list \<Rightarrow> 'w runtime \<Rightarrow> (exn + string) \<times> 'w runtime" where
  "create_chart env config =
     traced CHAIN ''create_chart'' (
       seq (external (chat_completions_create env False
              [user_message (CREATE_CHART_PROMPT (fmt env (PDict config)))])) (\<lambda>choices.
       seq (lift (getitem0 choices)) (\<lambda>message.
       lift (case content message of
               None \<Rightarrow> Inl AttributeError
             | Some text \<Rightarrow>
                 Inr (str_strip env (remove_all ''```'' (remove_all ''```python'' text)))))))"

definition generate_visualization ::
  "('w, 'df) env \<Rightarrow> pyval \<Rightarrow> pyval \<Rightarrow> 'w runtime \<Rightarrow> (exn + string) \<times> 'w runtime" where
  "generate_visualization env data visualization_goal =
     traced TOOL ''generate_visualization'' (
       seq (extract_chart_config env data visualization_goal) (\<lambda>config.
       create_chart env config))"

section \<open>Tool dispatch\<close>

datatype tool = LookupSalesData | AnalyzeSalesData | GenerateVisualization

definition tool_implementations :: "(string \<times> tool) list" where
  "tool_implementations =
     [(''lookup_sales_data'', LookupSalesData),
      (''analyze_sales_data'', AnalyzeSalesData),
      (''generate_visualization'', GenerateVisualization)]"

text \<open>
  \<^verbatim>\<open>function(**function_args)\<close>: the decoded arguments must be a dict whose keys are
  exactly the parameters of the function; anything else is a \<^verbatim>\<open>TypeError\<close> at the
  call. The values are handed over as they are, whatever their type.
\<close>

definition keyword_arguments :: "string list \<Rightarrow> pyval \<Rightarrow> exn + pyval list" where
  "keyword_arguments params function_args =
     (case function_args of
        PDict kwargs \<Rightarrow>
          (if set (map fst kwargs) = set params
           then (case those (map (map_of kwargs) params) of
                   Some values \<Rightarrow> Inr values
                 | None \<Rightarrow> Inl TypeError)
           else Inl TypeError)
      | _ \<Rightarrow> Inl TypeError)"

definition call_tool ::
  "('w, 'df) env \<Rightarrow> tool \<Rightarrow> pyval \<Rightarrow> 'w runtime \<Rightarrow> (exn + string) \<times> 'w runtime" where
  "call_tool env function function_args =
     (case function of
        LookupSalesData \<Rightarrow>
          seq (lift (keyword_arguments [''prompt''] function_args)) (\<lambda>values.
            case values of
              [prompt] \<Rightarrow> lookup_sales_data env prompt
            | _ \<Rightarrow> lift (Inl TypeError))
      | AnalyzeSalesData \<Rightarrow>
          seq (lift (keyword_arguments [''prompt'', ''data''] function_args)) (\<lambda>values.
            case values of
              [prompt, data] \<Rightarrow> analyze_sales_data env prompt data
            | _ \<Rightarrow> lift (Inl TypeError))
      | GenerateVisualization \<Rightarrow>
          seq (lift (keyword_arguments [''data'', ''visualization_goal''] function_args)) (\<lambda>values.
            case values of
              [data, visualization_goal] \<Rightarrow> generate_visualization env data visualization_goal
            | _ \<Rightarrow> lift (Inl TypeError)))"

text \<open>
  The first three lines of the body of the \<^verbatim>\<open>for\<close> loop of \<^verbatim>\<open>handle_tool_calls\<close>:
  look the function up, decode the arguments, call.
\<close>

definition dispatch ::
  "('w, 'df) env \<Rightarrow> tool_call \<Rightarrow> 'w runtime \<Rightarrow> (exn + string) \<times> 'w runtime" where
  "dispatch env tool_call =
     seq (lift (case map_of tool_implementations (function_name tool_call) of
                  None \<Rightarrow> Inl (KeyError (function_name tool_call))
                | Some function \<Rightarrow> Inr function)) (\<lambda>function.
     seq (lift (json_loads env (function_arguments tool_call))) (\<lambda>function_args.
     call_tool env function function_args))"

definition tool_message :: "string \<Rightarrow> string \<Rightarrow> message" where
  "tool_message result tool_call_id =
     Dict [(''role'', PStr ''tool''), (''content'', PStr result),
           (''tool_call_id'', PStr tool_call_id)]"

text \<open>
  The loop appends to the list it was given, so the messages appended before a call
  raises stay in the conversation: the state is the conversation and the runtime, and it
  is returned with the exception too.
\<close>

fun handle_tool_calls_loop ::
  "('w, 'df) env \<Rightarrow> tool_call list \<Rightarrow> message list \<times> 'w runtime \<Rightarrow>
   (exn + unit) \<times> message list \<times> 'w runtime" where
  "handle_tool_calls_loop env [] (messages, rt) = (Inr (), (messages, rt))"
| "handle_tool_calls_loop env (tool_call # rest) (messages, rt) =
     (case dispatch env tool_call rt of
        (Inl e, rt') \<Rightarrow> (Inl e, (messages, rt'))
      | (Inr result, rt') \<Rightarrow>
          handle_tool_calls_loop env rest
            (messages @ [tool_message result (call_id tool_call)], rt'))"

definition handle_tool_calls ::
  "('w, 'df) env \<Rightarrow> tool_call list \<Rightarrow> message list \<times> 'w runtime \<Rightarrow>
   (exn + unit) \<times> message list \<times> 'w runtime" where
  "handle_tool_calls env calls st =
     (case st of (messages, rt) \<Rightarrow>
      case span_start ''handle_tool_calls'' CHAIN rt of (span, rt1) \<Rightarrow>
      case handle_tool_calls_loop env calls (messages, rt1) of (r, (messages', rt2)) \<Rightarrow>
        (r, (messages', span_end span (exn_of r) rt2)))"

section \<open>The agent loop\<close>

definition SYSTEM_PROMPT :: string where
  "SYSTEM_PROMPT =
     [CHR 0x0A] @
     ''You are a helpful assistant that can answer questions about the Store Sales Price Elasticity Promotions dataset.'' @
     [CHR 0x0A]"

datatype agent_input = Text string | Conversation "message list"

definition is_system :: "message \<Rightarrow> bool" where
  "is_system message =
     (case message of
        Dict d \<Rightarrow> map_of d ''role'' = Some (PStr ''system'')
      | Assistant _ \<Rightarrow> False)"

definition system_message :: message where
  "system_message = Dict [(''role'', PStr ''system''), (''content'', PStr SYSTEM_PROMPT)]"

text \<open>The first four lines of \<^verbatim>\<open>run_agent\<close>, before the loop.\<close>

definition normalize_messages :: "agent_input \<Rightarrow> message list" where
  "normalize_messages inp =
     (let messages = (case inp of Text s \<Rightarrow> [user_message s] | Conversation ms \<Rightarrow> ms)
      in if \<not> list_ex is_system messages then messages @ [system_message] else messages)"

text \<open>
  The \<^verbatim>\<open>with\<close> block of one iteration. It hands out the span and the message of the
  first choice; the message is appended to the conversation by the caller of this
  block, which is the only thing the block does to the conversation, and it does it
  after everything in the block that can raise.
\<close>

definition router_call ::
  "('w, 'df) env \<Rightarrow> message list \<Rightarrow> 'w runtime \<Rightarrow> (exn + nat \<times> chat_message) \<times> 'w runtime" where
  "router_call env messages =
     with_span ''router_call'' CHAIN (\<lambda>span.
       seq (set_input span (SnapMessages messages)) (\<lambda>_.
       seq (external (chat_completions_create env True messages)) (\<lambda>choices.
       seq (lift (getitem0 choices)) (\<lambda>message.
       seq (set_status span OK) (\<lambda>_.
       ret (span, message))))))"

text \<open>\<^verbatim>\<open>if tool_calls:\<close> holds for a list that is neither \<^verbatim>\<open>None\<close> nor empty.\<close>

definition calls_of :: "chat_message \<Rightarrow> tool_call list" where
  "calls_of message = (case tool_calls message of None \<Rightarrow> [] | Some tcs \<Rightarrow> tcs)"

datatype 'a control = Return 'a | Continue

definition run_agent_iteration ::
  "('w, 'df) env \<Rightarrow> message list \<times> 'w runtime \<Rightarrow>
   (exn + string option control) \<times> message list \<times> 'w runtime" where
  "run_agent_iteration env st =
     (case st of (messages, rt) \<Rightarrow>
      case router_call env messages rt of
        (Inl e, rt1) \<Rightarrow> (Inl e, (messages, rt1))
      | (Inr (span, message), rt1) \<Rightarrow>
          (if calls_of message \<noteq> []
           then (case handle_tool_calls env (calls_of message)
                        (messages @ [Assistant message], rt1) of
                   (Inl e, st2) \<Rightarrow> (Inl e, st2)
                 | (Inr _, (messages2, rt2)) \<Rightarrow>
                     (Inr Continue,
                      (messages2, log (SetOutput span (SnapToolCalls (calls_of message))) rt2)))
           else (Inr (Return (content message)),
                 (messages @ [Assistant message],
                  log (SetOutput span (SnapText (content message))) rt1))))"

text \<open>
  \<^verbatim>\<open>while True\<close>: the loop has no bound, so the model is a function that may have no
  value: \<open>None\<close> is a run that never ends.
\<close>

partial_function (option) run_agent_loop ::
  "('w, 'df) env \<Rightarrow> message list \<times> 'w runtime \<Rightarrow>
   ((exn + string option) \<times> message list \<times> 'w runtime) option" where
  "run_agent_loop env st =
     (case run_agent_iteration env st of
        (Inl e, st') \<Rightarrow> Some (Inl e, st')
      | (Inr (Return answer), st') \<Rightarrow> Some (Inr answer, st')
      | (Inr Continue, st') \<Rightarrow> run_agent_loop env st')"

declare run_agent_loop.simps [code]

definition run_agent ::
  "('w, 'df) env \<Rightarrow> agent_input \<Rightarrow> 'w runtime \<Rightarrow>
   ((exn + string option) \<times> message list \<times> 'w runtime) option" where
  "run_agent env inp rt = run_agent_loop env (normalize_messages inp, rt)"

definition start_main_span ::
  "('w, 'df) env \<Rightarrow> agent_input \<Rightarrow> 'w runtime \<Rightarrow>
   ((exn + string option) \<times> message list \<times> 'w runtime) option" where
  "start_main_span env inp rt =
     (case span_start ''AgentRun'' AGENT rt of (span, rt1) \<Rightarrow>
      case set_input span
             (case inp of Text s \<Rightarrow> SnapText (Some s) | Conversation ms \<Rightarrow> SnapMessages ms)
             rt1 of (_, rt2) \<Rightarrow>
      case run_agent env inp rt2 of
        None \<Rightarrow> None
      | Some (Inl e, (messages, rt3)) \<Rightarrow>
          Some (Inl e, (messages, span_end span (Some e) rt3))
      | Some (Inr ret_val, (messages, rt3)) \<Rightarrow>
          Some (Inr ret_val,
                (messages,
                 span_end span None
                   (log (SetStatus span OK) (log (SetOutput span (SnapText ret_val)) rt3)))))"

section \<open>The benchmark harness\<close>

text \<open>
  \<^verbatim>\<open>os.path.join(a, b)\<close> on POSIX, and the dependency step of
  \<^verbatim>\<open>benchmark-evals/orbital_eval/evaluate_custom.py\<close>: \<open>exists\<close> is \<^verbatim>\<open>os.path.exists\<close>
  on the file system the script sees, and the result lists the commands handed to
  \<^verbatim>\<open>subprocess.run\<close>, each with its working directory.
\<close>

definition path_join :: "string \<Rightarrow> string \<Rightarrow> string" where
  "path_join a b =
     (if b \<noteq> [] \<and> hd b = CHR ''/'' then b
      else if a = [] \<or> last a = CHR ''/'' then a @ b
      else a @ ''/'' @ b)"

definition install_dependencies ::
  "(string \<Rightarrow> bool) \<Rightarrow> string \<Rightarrow> (string list \<times> string) list" where
  "install_dependencies exists repo_path =
     (if exists (path_join repo_path ''requirements.txt'')
      then [([''pip'', ''install'', ''-r'', ''requirements.txt''], repo_path)]
      else if exists (path_join repo_path ''setup.py'')
      then [([''pip'', ''install'', ''-e'', ''.''], repo_path)]
      else if exists (path_join repo_path ''pyproject.toml'')
      then [([''pip'', ''install'', ''.''], repo_path)]
      else [])"

section \<open>Notions used to state the properties\<close>

subsection \<open>Iterations of the loop\<close>

text \<open>
  \<open>rounds env k st\<close> is the state after \<open>k\<close> iterations of the loop that all went on
  to the next one: in each of them the model asked for tool calls and every call was
  dispatched without an exception. It is \<open>None\<close> when one of these \<open>k\<close> iterations
  returned or raised. \<open>model_response env st\<close> is what the model answers to the request
  of the iteration that starts in \<open>st\<close>: the message of the first choice, or the
  exception.
\<close>

fun rounds ::
  "('w, 'df) env \<Rightarrow> nat \<Rightarrow> message list \<times> 'w runtime \<Rightarrow> (message list \<times> 'w runtime) option" where
  "rounds env 0 st = Some st"
| "rounds env (Suc k) st =
     (case run_agent_iteration env st of
        (Inr Continue, st') \<Rightarrow> rounds env k st'
      | (Inr (Return _), _) \<Rightarrow> None
      | (Inl _, _) \<Rightarrow> None)"

definition model_response ::
  "('w, 'df) env \<Rightarrow> message list \<times> 'w runtime \<Rightarrow> exn + chat_message" where
  "model_response env st =
     (case st of (messages, rt) \<Rightarrow>
      case chat_completions_create env True messages (world rt) of
        (Inl e, _) \<Rightarrow> Inl e
      | (Inr choices, _) \<Rightarrow> getitem0 choices)"

subsection \<open>Dispatching in order\<close>

text \<open>
  The calls of one response dispatched one after the other in the order given, each in
  the runtime the one before left, up to the first that raises: the results obtained, the
  exception if there was one, and the runtime at the end.
\<close>

fun dispatch_all ::
  "('w, 'df) env \<Rightarrow> tool_call list \<Rightarrow> 'w runtime \<Rightarrow> (string list \<times> exn option) \<times> 'w runtime" where
  "dispatch_all env [] rt = (([], None), rt)"
| "dispatch_all env (tool_call # rest) rt =
     (case dispatch env tool_call rt of
        (Inl e, rt') \<Rightarrow> (([], Some e), rt')
      | (Inr result, rt') \<Rightarrow>
          (case dispatch_all env rest rt' of
             ((results, exc), rt'') \<Rightarrow> ((result # results, exc), rt'')))"

definition tool_messages :: "string list \<Rightarrow> tool_call list \<Rightarrow> message list" where
  "tool_messages results calls =
     map (\<lambda>(result, tool_call). tool_message result (call_id tool_call)) (zip results calls)"

subsection \<open>Correlation of tool results with requests\<close>

text \<open>
  A tool-result message is a dict with role \<^verbatim>\<open>tool\<close>; its correlation identifier is
  what \<^verbatim>\<open>message.get("tool_call_id")\<close> gives. The requests of a message are the
  identifiers of the tool calls of a model message, or of a dict with role
  \<^verbatim>\<open>assistant\<close> that lists tool calls the same way.
\<close>

definition is_tool_result :: "message \<Rightarrow> bool" where
  "is_tool_result message =
     (case message of
        Dict d \<Rightarrow> map_of d ''role'' = Some (PStr ''tool'')
      | Assistant _ \<Rightarrow> False)"

definition correlation_id :: "message \<Rightarrow> pyval" where
  "correlation_id message =
     (case message of
        Dict d \<Rightarrow> (case map_of d ''tool_call_id'' of Some v \<Rightarrow> v | None \<Rightarrow> PNone)
      | Assistant _ \<Rightarrow> PNone)"

definition dict_call_id :: "pyval \<Rightarrow> pyval list" where
  "dict_call_id call =
     (case call of
        PDict c \<Rightarrow> (case map_of c ''id'' of Some v \<Rightarrow> [v] | None \<Rightarrow> [])
      | _ \<Rightarrow> [])"

definition request_ids :: "message \<Rightarrow> pyval list" where
  "request_ids message =
     (case message of
        Assistant m \<Rightarrow> map (\<lambda>tool_call. PStr (call_id tool_call)) (calls_of m)
      | Dict d \<Rightarrow>
          (if map_of d ''role'' = Some (PStr ''assistant'')
           then (case map_of d ''tool_calls'' of
                   Some (PList calls) \<Rightarrow> concat (map dict_call_id calls)
                 | _ \<Rightarrow> [])
           else []))"

definition all_request_ids :: "message list \<Rightarrow> pyval list" where
  "all_request_ids messages = concat (map request_ids messages)"

definition tool_result_ids :: "message list \<Rightarrow> pyval list" where
  "tool_result_ids messages = map correlation_id (filter is_tool_result messages)"

text \<open>
  \<open>correlated messages\<close>: the identifier of every tool-result message is the identifier
  of exactly one request issued earlier in the sequence.
\<close>

fun correlated_from :: "pyval list \<Rightarrow> message list \<Rightarrow> bool" where
  "correlated_from earlier [] = True"
| "correlated_from earlier (message # rest) =
     ((if is_tool_result message then count_list earlier (correlation_id message) = 1 else True)
      \<and> correlated_from (earlier @ request_ids message) rest)"

definition correlated :: "message list \<Rightarrow> bool" where
  "correlated messages = correlated_from [] messages"

text \<open>
  \<open>pending opened messages\<close> reads a sequence in which every tool result answers the
  oldest open request, and gives the requests still open at the end.
\<close>

fun pending :: "pyval list \<Rightarrow> message list \<Rightarrow> pyval list option" where
  "pending opened [] = Some opened"
| "pending opened (message # rest) =
     (if is_tool_result message
      then (case opened of
              [] \<Rightarrow> None
            | i # opened' \<Rightarrow> if correlation_id message = i then pending opened' rest else None)
      else pending (opened @ request_ids message) rest)"

subsection \<open>The install table\<close>

text \<open>The files probed by the harness, in priority order, each with its command.\<close>

definition install_priority :: "(string \<times> string list) list" where
  "install_priority =
     [(''requirements.txt'', [''pip'', ''install'', ''-r'', ''requirements.txt'']),
      (''setup.py'', [''pip'', ''install'', ''-e'', ''.'']),
      (''pyproject.toml'', [''pip'', ''install'', ''.''])]"

section \<open>Scripted environments\<close>

text \<open>
  Concrete environments on which the properties below are run. The world is the number of
  requests the model service has answered so far, and the model answers the \<open>n\<close>-th
  request with \<open>script n\<close>, whoever asks. The data frame is the text of its rows.
\<close>

definition decode_arguments :: "string \<Rightarrow> exn + pyval" where
  \<open>decode_arguments s =
     (if s = ''{"prompt": "total sales last week"}''
      then Inr (PDict [(''prompt'', PStr ''total sales last week'')])
      else if s = ''{"data": "total 42", "prompt": "how did sales do"}''
      then Inr (PDict [(''data'', PStr ''total 42''), (''prompt'', PStr ''how did sales do'')])
      else if s = ''{}'' then Inr (PDict [])
      else Inl (Raised ''JSONDecodeError''))\<close>

definition scripted :: "(nat \<Rightarrow> exn + chat_message list) \<Rightarrow> (nat, string) env" where
  "scripted script =
     \<lparr>chat_completions_create = (\<lambda>tools messages n. (script n, Suc n)),
      chat_completions_parse = (\<lambda>messages n. (Inr [[]], Suc n)),
      read_parquet = (\<lambda>path n. (Inr ''store sales'', n)),
      duckdb_sql = (\<lambda>q df n. (Inr (), n)),
      duckdb_sql_df = (\<lambda>q df n. (Inr ''total 42'', n)),
      columns_str = (\<lambda>df. ''week, sales''),
      df_str = (\<lambda>df. df),
      df_to_string = (\<lambda>df. df),
      json_loads = decode_arguments,
      str_exn = (\<lambda>e. case e of Raised c \<Rightarrow> c | _ \<Rightarrow> ''error''),
      py_str = (\<lambda>v. ''value''),
      str_strip = (\<lambda>s. s)\<rparr>"

definition lookup_call :: tool_call where
  \<open>lookup_call =
     ToolCall ''call_1'' ''lookup_sales_data'' ''{"prompt": "total sales last week"}''\<close>

text \<open>
  One data lookup, then the answer. The second request is the one the lookup tool makes
  for its SQL query.
\<close>

definition sales_script :: "nat \<Rightarrow> exn + chat_message list" where
  "sales_script n =
     (if n = 0 then Inr [ChatMessage None (Some [lookup_call])]
      else if n = 1 then Inr [ChatMessage (Some ''SELECT sum(sales) FROM sales'') None]
      else Inr [ChatMessage (Some ''Total sales were 42.'') None])"

text \<open>A model that asks for the same tool call whatever it is sent.\<close>

definition looping_script :: "nat \<Rightarrow> exn + chat_message list" where
  "looping_script n = Inr [ChatMessage None (Some [lookup_call])]"

text \<open>A model that first asks for a tool that is not registered.\<close>

definition unknown_tool_script :: "nat \<Rightarrow> exn + chat_message list" where
  "unknown_tool_script n =
     (if n = 0 then Inr [ChatMessage None (Some [ToolCall ''call_1'' ''get_weather'' ''{}''])]
      else Inr [ChatMessage (Some ''done'') None])"

definition start :: "nat runtime" where
  "start = \<lparr>world = 0, spans = []\<rparr>"

definition chart_object :: "(string \<times> pyval) list" where
  "chart_object =
     [(''chart_type'', PStr ''bar''), (''x_axis'', PStr ''week''),
      (''y_axis'', PStr ''sales''), (''title'', PStr ''Weekly sales'')]"

text \<open>The data file cannot be read.\<close>

definition no_parquet :: "(nat, string) env" where
  "no_parquet =
     (scripted looping_script)
       \<lparr>read_parquet := \<lambda>path n. (Inl (Raised ''FileNotFoundError''), n)\<rparr>"

text \<open>
  A response whose second call names a tool that is not registered, and a response whose
  call carries arguments that are not JSON.
\<close>

definition second_unknown_script :: "nat \<Rightarrow> exn + chat_message list" where
  "second_unknown_script n =
     (if n = 0 then
        Inr [ChatMessage None (Some [lookup_call, ToolCall ''call_2'' ''get_weather'' ''{}''])]
      else if n = 1 then Inr [ChatMessage (Some ''SELECT sum(sales) FROM sales'') None]
      else Inr [ChatMessage (Some ''done'') None])"

definition malformed_script :: "nat \<Rightarrow> exn + chat_message list" where
  "malformed_script n =
     (if n = 0 then
        Inr [ChatMessage None (Some [ToolCall ''call_1'' ''lookup_sales_data'' ''{prompt'' ])]
      else Inr [ChatMessage (Some ''done'') None])"

text \<open>
  A model that answers at once, and a model whose first response carries two tool calls
  with the same identifier.
\<close>

definition answered_script :: "nat \<Rightarrow> exn + chat_message list" where
  "answered_script n = Inr [ChatMessage (Some ''done'') None]"

definition repeated_id_script :: "nat \<Rightarrow> exn + chat_message list" where
  "repeated_id_script n =
     (if n = 0 then Inr [ChatMessage None (Some [lookup_call, lookup_call])]
      else if n = 1 \<or> n = 2 then Inr [ChatMessage (Some ''SELECT sum(sales) FROM sales'') None]
      else Inr [ChatMessage (Some ''done'') None])"

text \<open>
  A call of the analysis tool, and an environment whose structured-output call raises.
\<close>

definition analyze_call :: tool_call where
  \<open>analyze_call =
     ToolCall ''call_7'' ''analyze_sales_data''
       ''{"data": "total 42", "prompt": "how did sales do"}''\<close>

definition parse_raises :: "(nat, string) env" where
  "parse_raises =
     (scripted sales_script)
       \<lparr>chat_completions_parse := \<lambda>messages n. (Inl (Raised ''ValidationError''), Suc n)\<rparr>"

section \<open>Unfolding\<close>

lemmas statement_defs = ret_def lift_def seq_def external_def exn_of_def log_def
  span_start_def span_end_def set_input_def set_output_def set_status_def with_span_def traced_def

lemmas tool_defs = generate_sql_query_def lookup_sales_data_try_def lookup_sales_data_def
  analyze_sales_data_def extract_chart_config_try_def extract_chart_config_def create_chart_def
  generate_visualization_def tool_implementations_def keyword_arguments_def call_tool_def
  dispatch_def tool_message_def handle_tool_calls_def getitem0_def getattr_def

lemmas agent_defs = run_agent_iteration_def router_call_def calls_of_def normalize_messages_def
  user_message_def system_message_def is_system_def model_response_def run_agent_def

lemmas scripted_defs = scripted_def decode_arguments_def lookup_call_def start_def

section \<open>The tools and the dispatch in closed form\<close>

lemma analyze_sales_data_eq:
  "analyze_sales_data env prompt data rt =
     (case chat_completions_create env False
             [user_message (DATA_ANALYSIS_PROMPT (fmt env data) (fmt env prompt))] (world rt) of
        (r, w) \<Rightarrow>
          (let answer =
                 (case r of Inl e \<Rightarrow> Inl e | Inr choices \<Rightarrow>
                  case getitem0 choices of Inl e \<Rightarrow> Inl e | Inr message \<Rightarrow>
                    Inr (case content message of
                           None \<Rightarrow> ''No analysis could be generated''
                         | Some analysis \<Rightarrow>
                             if analysis \<noteq> [] then analysis
                             else ''No analysis could be generated''))
           in (answer,
               \<lparr>world = w,
                spans = spans rt @ [Start (length (spans rt)) ''analyze_sales_data'' TOOL,
                                    End (length (spans rt)) (exn_of answer)]\<rparr>)))"
  by (auto simp: analyze_sales_data_def statement_defs Let_def split: prod.splits sum.splits)

lemma extract_chart_config_eq:
  "extract_chart_config env data visualization_goal rt =
     (case chat_completions_parse env
             [user_message (CHART_CONFIGURATION_PROMPT (fmt env data) (fmt env visualization_goal))]
             (world rt) of
        (r, w) \<Rightarrow>
          (let answer =
                 (case r of Inl e \<Rightarrow> Inl e | Inr choices \<Rightarrow>
                    Inr (case extract_chart_config_try choices data of
                           Inr config \<Rightarrow> config
                         | Inl _ \<Rightarrow>
                             [(''chart_type'', PStr ''line''), (''x_axis'', PStr ''date''),
                              (''y_axis'', PStr ''value''), (''title'', visualization_goal),
                              (''data'', data)]))
           in (answer,
               \<lparr>world = w,
                spans = spans rt @ [Start (length (spans rt)) ''extract_chart_config'' CHAIN,
                                    End (length (spans rt)) (exn_of answer)]\<rparr>)))"
  by (auto simp: extract_chart_config_def statement_defs Let_def split: prod.splits sum.splits)

lemma extract_chart_config_try_keys:
  "extract_chart_config_try choices data = Inr config \<Longrightarrow>
   map fst config = [''chart_type'', ''x_axis'', ''y_axis'', ''title'', ''data'']
   \<and> map_of config ''data'' = Some data"
  by (auto simp: extract_chart_config_try_def split: sum.splits)

lemma lookup_sales_data_eq:
  "lookup_sales_data env prompt rt =
     (case lookup_sales_data_try env prompt (snd (span_start ''lookup_sales_data'' TOOL rt)) of
        (r, rt') \<Rightarrow>
          (Inr (case r of
                  Inr result \<Rightarrow> result
                | Inl e \<Rightarrow> ''Error accessing data: '' @ str_exn env e),
           span_end (length (spans rt)) None rt'))"
  by (auto simp: lookup_sales_data_def traced_def with_span_def span_start_def exn_of_def
           split: prod.splits sum.splits)

lemma keyword_arguments_single:
  "keyword_arguments [k] (PDict [(k, v)]) = Inr [v]"
  by (simp add: keyword_arguments_def)

lemma dispatch_lookup:
  assumes "function_name tc = ''lookup_sales_data''"
    and "json_loads env (function_arguments tc) = Inr (PDict [(''prompt'', prompt)])"
  shows "dispatch env tc rt = lookup_sales_data env prompt rt"
  using assms
  by (simp add: dispatch_def seq_def lift_def tool_implementations_def call_tool_def
      keyword_arguments_single)

lemma dispatch_unknown:
  "map_of tool_implementations (function_name tc) = None \<Longrightarrow>
   dispatch env tc rt = (Inl (KeyError (function_name tc)), rt)"
  by (simp add: dispatch_def seq_def lift_def)

lemma dispatch_malformed:
  "map_of tool_implementations (function_name tc) = Some f \<Longrightarrow>
   json_loads env (function_arguments tc) = Inl e \<Longrightarrow>
   dispatch env tc rt = (Inl e, rt)"
  by (simp add: dispatch_def seq_def lift_def)

lemma handle_tool_calls_loop_eq:
  "handle_tool_calls_loop env calls (ms, rt) =
     (case dispatch_all env calls rt of
        ((results, exc), rt') \<Rightarrow>
          ((case exc of None \<Rightarrow> Inr () | Some e \<Rightarrow> Inl e),
           ms @ tool_messages results calls, rt'))"
proof (induction calls arbitrary: ms rt)
  case Nil
  then show ?case by (simp add: tool_messages_def)
next
  case (Cons tc calls)
  show ?case
  proof (cases "dispatch env tc rt")
    case (Pair r rt1)
    then show ?thesis
      by (cases r) (auto simp: Cons.IH tool_messages_def split: prod.splits)
  qed
qed

lemma dispatch_all_length:
  "dispatch_all env calls rt = ((results, exc), rt') \<Longrightarrow>
   (case exc of None \<Rightarrow> length results = length calls | Some _ \<Rightarrow> length results < length calls)"
proof (induction calls arbitrary: rt results exc rt')
  case Nil
  then show ?case by auto
next
  case (Cons tc calls)
  obtain r rt1 where d: "dispatch env tc rt = (r, rt1)" by (cases "dispatch env tc rt")
  show ?case
  proof (cases r)
    case (Inl e)
    with d Cons.prems show ?thesis by auto
  next
    case (Inr result)
    obtain rs ex rt2 where a: "dispatch_all env calls rt1 = ((rs, ex), rt2)"
      by (cases "dispatch_all env calls rt1") auto
    with d Inr Cons.prems have "results = result # rs" "exc = ex" by auto
    with Cons.IH[OF a] show ?thesis by (auto split: option.splits)
  qed
qed

lemma dispatch_all_append:
  "dispatch_all env (pre @ post) rt =
     (case dispatch_all env pre rt of
        ((results, Some e), rt') \<Rightarrow> ((results, Some e), rt')
      | ((results, None), rt') \<Rightarrow>
          (case dispatch_all env post rt' of
             ((results', exc), rt'') \<Rightarrow> ((results @ results', exc), rt'')))"
proof (induction pre arbitrary: rt)
  case Nil
  then show ?case by (simp split: prod.splits)
next
  case (Cons tc pre)
  show ?case
  proof (cases "dispatch env tc rt")
    case (Pair r rt1)
    then show ?thesis
      by (cases r) (auto simp: Cons.IH split: prod.splits option.splits)
  qed
qed

lemma tool_messages_prefix:
  "length results = length pre \<Longrightarrow>
   tool_messages results (pre @ post) = tool_messages results pre"
  unfolding tool_messages_def
  by (induction results pre rule: list_induct2) simp_all

section \<open>One iteration, and the loop\<close>

lemma router_call_eq:
  "router_call env ms rt =
     (case chat_completions_create env True ms (world rt) of
        (r, w) \<Rightarrow>
          (let answer = (case r of Inl e \<Rightarrow> Inl e | Inr choices \<Rightarrow> getitem0 choices);
               span = length (spans rt)
           in (map_sum id (Pair span) answer,
               \<lparr>world = w,
                spans = spans rt @
                  [Start span ''router_call'' CHAIN, SetInput span (SnapMessages ms)] @
                  (case answer of Inl e \<Rightarrow> [] | Inr _ \<Rightarrow> [SetStatus span OK]) @
                  [End span (exn_of answer)]\<rparr>)))"
  by (auto simp: router_call_def statement_defs Let_def split: prod.splits sum.splits)

lemma router_call_model_response:
  "fst (router_call env ms rt) = map_sum id (Pair (length (spans rt))) (model_response env (ms, rt))"
  by (auto simp: router_call_eq model_response_def Let_def split: prod.splits sum.splits)

lemma handle_tool_calls_eq:
  "handle_tool_calls env calls (ms, rt) =
     (case dispatch_all env calls (snd (span_start ''handle_tool_calls'' CHAIN rt)) of
        ((results, exc), rt') \<Rightarrow>
          ((case exc of None \<Rightarrow> Inr () | Some e \<Rightarrow> Inl e),
           ms @ tool_messages results calls,
           span_end (length (spans rt)) exc rt'))"
  by (auto simp: handle_tool_calls_def handle_tool_calls_loop_eq span_start_def exn_of_def
           split: prod.splits option.splits)

lemma run_agent_iteration_eq:
  "run_agent_iteration env (ms, rt) =
     (case router_call env ms rt of
        (Inl e, rt1) \<Rightarrow> (Inl e, (ms, rt1))
      | (Inr (span, m), rt1) \<Rightarrow>
          if calls_of m = []
          then (Inr (Return (content m)),
                (ms @ [Assistant m], log (SetOutput span (SnapText (content m))) rt1))
          else
            (case dispatch_all env (calls_of m) (snd (span_start ''handle_tool_calls'' CHAIN rt1)) of
               ((results, None), rt2) \<Rightarrow>
                 (Inr Continue,
                  (ms @ [Assistant m] @ tool_messages results (calls_of m),
                   log (SetOutput span (SnapToolCalls (calls_of m)))
                     (span_end (length (spans rt1)) None rt2)))
             | ((results, Some e), rt2) \<Rightarrow>
                 (Inl e,
                  (ms @ [Assistant m] @ tool_messages results (calls_of m),
                   span_end (length (spans rt1)) (Some e) rt2))))"
  by (auto simp: run_agent_iteration_def handle_tool_calls_eq
           split: prod.splits sum.splits option.splits)

lemma run_agent_iteration_return_iff:
  "(\<exists>st'. run_agent_iteration env st = (Inr (Return answer), st')) \<longleftrightarrow>
   (\<exists>m. model_response env st = Inr m \<and> calls_of m = [] \<and> answer = content m)"
proof (cases st)
  case (Pair ms rt)
  obtain r rt1 where rc: "router_call env ms rt = (r, rt1)" by (cases "router_call env ms rt")
  have mr: "r = map_sum id (Pair (length (spans rt))) (model_response env (ms, rt))"
    using router_call_model_response[of env ms rt] rc by simp
  show ?thesis
    unfolding Pair run_agent_iteration_eq rc
    by (cases "model_response env (ms, rt)")
       (auto simp: mr split: prod.splits option.splits)
qed

lemma run_agent_iteration_continue_calls:
  "run_agent_iteration env st = (Inr Continue, st') \<Longrightarrow>
   \<exists>m. model_response env st = Inr m \<and> calls_of m \<noteq> []"
proof (cases st)
  case (Pair ms rt)
  assume a: "run_agent_iteration env st = (Inr Continue, st')"
  obtain r rt1 where rc: "router_call env ms rt = (r, rt1)" by (cases "router_call env ms rt")
  have mr: "r = map_sum id (Pair (length (spans rt))) (model_response env (ms, rt))"
    using router_call_model_response[of env ms rt] rc by simp
  show ?thesis
    using a unfolding Pair run_agent_iteration_eq rc
    by (cases "model_response env (ms, rt)")
       (auto simp: mr split: prod.splits option.splits if_splits)
qed

lemma run_agent_loop_return:
  "run_agent_iteration env st = (Inr (Return answer), st') \<Longrightarrow>
   run_agent_loop env st = Some (Inr answer, st')"
  by (subst run_agent_loop.simps) simp

lemma run_agent_loop_raise:
  "run_agent_iteration env st = (Inl e, st') \<Longrightarrow> run_agent_loop env st = Some (Inl e, st')"
  by (subst run_agent_loop.simps) simp

lemma run_agent_loop_continue:
  "run_agent_iteration env st = (Inr Continue, st') \<Longrightarrow>
   run_agent_loop env st = run_agent_loop env st'"
  by (subst run_agent_loop.simps) simp

lemma rounds_loop:
  "rounds env k st = Some st' \<Longrightarrow> run_agent_loop env st = run_agent_loop env st'"
proof (induction k arbitrary: st)
  case 0
  then show ?case by simp
next
  case (Suc k)
  then show ?case
    by (auto simp: run_agent_loop_continue split: prod.splits sum.splits control.splits)
qed

lemma rounds_add:
  "rounds env (k + j) st = (case rounds env k st of None \<Rightarrow> None | Some st' \<Rightarrow> rounds env j st')"
  by (induction k arbitrary: st) (auto split: prod.splits sum.splits control.splits)

text \<open>
  A run that ends went through some number of iterations that continued, and then
  through one that returned or raised. A run whose iterations all continue has no value.
\<close>

lemma run_agent_loop_Some:
  assumes "run_agent_loop env st = Some y"
  shows "\<exists>k st'. rounds env k st = Some st' \<and>
     run_agent_iteration env st' = (map_sum id Return (fst y), snd y)"
proof (rule run_agent_loop.raw_induct
    [where P = "\<lambda>env st y. \<exists>k st'. rounds env k st = Some st' \<and>
       run_agent_iteration env st' = (map_sum id Return (fst y), snd y)", OF _ assms],
    goal_cases)
  case (1 loop env st y)
  obtain r st1 where it: "run_agent_iteration env st = (r, st1)"
    by (cases "run_agent_iteration env st")
  show ?case
  proof (cases "r = Inr Continue")
    case True
    with it 1(2) have "loop env st1 = Some y" by simp
    from 1(1)[OF this] obtain k st' where
      "rounds env k st1 = Some st'"
      "run_agent_iteration env st' = (map_sum id Return (fst y), snd y)" by blast
    moreover from this(1) it True have "rounds env (Suc k) st = Some st'" by simp
    ultimately show ?thesis by blast
  next
    case False
    with it 1(2) have "run_agent_iteration env st = (map_sum id Return (fst y), snd y)"
      by (auto split: sum.splits control.splits)
    moreover have "rounds env 0 st = Some st" by simp
    ultimately show ?thesis by blast
  qed
qed

lemma run_agent_loop_None:
  assumes "\<And>k. rounds env k st \<noteq> None"
  shows "run_agent_loop env st = None"
proof (rule ccontr)
  assume "run_agent_loop env st \<noteq> None"
  then obtain y where "run_agent_loop env st = Some y" by blast
  from run_agent_loop_Some[OF this] obtain k st' where
    k: "rounds env k st = Some st'" and
    it: "run_agent_iteration env st' = (map_sum id Return (fst y), snd y)" by blast
  have "rounds env (Suc 0) st' = None"
    using it by (cases "fst y") simp_all
  with k have "rounds env (k + Suc 0) st = None"
    by (simp only: rounds_add option.case)
  with assms show False by blast
qed

section \<open>Runs of the scripted environments\<close>

lemma sales_round:
  "\<exists>st1. rounds (scripted sales_script) (Suc 0)
            (normalize_messages (Text ''What were total sales last week?''), start) = Some st1
         \<and> model_response (scripted sales_script) st1
             = Inr (ChatMessage (Some ''Total sales were 42.'') None)
         \<and> length (fst st1) = 4"
  by (simp add: agent_defs tool_defs statement_defs scripted_defs sales_script_def)

lemma looping_iteration:
  "\<exists>st'. run_agent_iteration (scripted looping_script) st = (Inr Continue, st')"
  by (cases st) (simp add: agent_defs tool_defs statement_defs scripted_defs looping_script_def)

lemma looping_rounds: "rounds (scripted looping_script) k st \<noteq> None"
proof (induction k arbitrary: st)
  case 0
  then show ?case by simp
next
  case (Suc k)
  from looping_iteration[of st] obtain st' where
    "run_agent_iteration (scripted looping_script) st = (Inr Continue, st')" by blast
  with Suc[of st'] show ?case by simp
qed

lemma unknown_tool_iteration: "\<exists>st'. run_agent_iteration (scripted unknown_tool_script) (normalize_messages (Text ''hi''), start)
          = (Inl (KeyError ''get_weather''), st')"
    by (simp add: agent_defs tool_defs statement_defs scripted_defs unknown_tool_script_def)

lemma is_system_user [simp]: "\<not> is_system (user_message s)"
  by (simp add: is_system_def user_message_def)

lemma is_system_system [simp]: "is_system system_message"
  by (simp add: is_system_def system_message_def)

lemma lookup_sales_data_try_read_parquet:
  "read_parquet env TRANSACTION_DATA_FILE_PATH (world rt) = (Inl e, w) \<Longrightarrow>
   lookup_sales_data_try env prompt rt = (Inl e, rt\<lparr>world := w\<rparr>)"
  by (simp add: lookup_sales_data_try_def seq_def external_def)

lemma no_parquet_try:
  "\<exists>rt1. lookup_sales_data_try no_parquet (PStr ''total sales last week'')
            (snd (span_start ''lookup_sales_data'' TOOL start))
          = (Inl (Raised ''FileNotFoundError''), rt1)"
  by (simp add: no_parquet_def tool_defs statement_defs scripted_defs)

lemma second_unknown_run:
  "\<exists>span m rt1 results rt2.
     router_call (scripted second_unknown_script) (normalize_messages (Text ''hi'')) start
       = (Inr (span, m), rt1)
     \<and> calls_of m = [lookup_call] @ ToolCall ''call_2'' ''get_weather'' ''{}'' # []
     \<and> dispatch_all (scripted second_unknown_script) [lookup_call]
          (snd (span_start ''handle_tool_calls'' CHAIN rt1)) = ((results, None), rt2)
     \<and> results = [''total 42'']
     \<and> m = ChatMessage None (Some [lookup_call, ToolCall ''call_2'' ''get_weather'' ''{}''])"
  by (simp add: agent_defs tool_defs statement_defs scripted_defs second_unknown_script_def)

lemma malformed_run:
  "\<exists>span m rt1.
     router_call (scripted malformed_script) (normalize_messages (Text ''hi'')) start
       = (Inr (span, m), rt1)
     \<and> m = ChatMessage None (Some [ToolCall ''call_1'' ''lookup_sales_data'' ''{prompt'' ])"
  by (simp add: agent_defs tool_defs statement_defs scripted_defs malformed_script_def)

section \<open>Requests and their answers\<close>

lemma is_tool_result_tool_message [simp]: "is_tool_result (tool_message result i)"
  by (simp add: is_tool_result_def tool_message_def)

lemma correlation_id_tool_message [simp]: "correlation_id (tool_message result i) = PStr i"
  by (simp add: correlation_id_def tool_message_def)

lemma is_tool_result_Assistant [simp]: "\<not> is_tool_result (Assistant m)"
  by (simp add: is_tool_result_def)

lemma request_ids_Assistant [simp]:
  "request_ids (Assistant m) = map (\<lambda>tool_call. PStr (call_id tool_call)) (calls_of m)"
  by (simp add: request_ids_def)

lemma request_ids_tool_result: "is_tool_result message \<Longrightarrow> request_ids message = []"
  by (auto simp: is_tool_result_def request_ids_def split: message.splits)

lemma distinct_count_list: "distinct xs \<Longrightarrow> x \<in> set xs \<Longrightarrow> count_list xs x = 1"
  by (induction xs) auto

lemma count_list_one_member: "count_list xs x = 1 \<Longrightarrow> x \<in> set xs"
  by (rule ccontr) simp

lemma all_request_ids_append [simp]:
  "all_request_ids (xs @ ys) = all_request_ids xs @ all_request_ids ys"
  by (simp add: all_request_ids_def)

lemma all_request_ids_Cons [simp]:
  "all_request_ids (m # ms) = request_ids m @ all_request_ids ms"
  by (simp add: all_request_ids_def)

lemma all_request_ids_Nil [simp]: "all_request_ids [] = []"
  by (simp add: all_request_ids_def)

lemma tool_result_ids_append [simp]:
  "tool_result_ids (xs @ ys) = tool_result_ids xs @ tool_result_ids ys"
  by (simp add: tool_result_ids_def)

lemma pending_append:
  "pending opened (xs @ ys) =
     (case pending opened xs of None \<Rightarrow> None | Some opened' \<Rightarrow> pending opened' ys)"
  by (induction xs arbitrary: opened) (auto split: list.splits)

lemma pending_tool_messages:
  "length results \<le> length calls \<Longrightarrow>
   pending (map (\<lambda>tool_call. PStr (call_id tool_call)) calls @ opened)
           (tool_messages results calls)
     = Some (map (\<lambda>tool_call. PStr (call_id tool_call)) (drop (length results) calls) @ opened)"
proof (induction calls arbitrary: results)
  case Nil
  then show ?case by (simp add: tool_messages_def)
next
  case (Cons tc calls)
  show ?case
  proof (cases results)
    case Nil
    then show ?thesis by (simp add: tool_messages_def)
  next
    case (Cons r rs)
    with Cons.prems have "length rs \<le> length calls" by simp
    from Cons.IH[OF this] Cons show ?thesis by (simp add: tool_messages_def)
  qed
qed

lemma correlated_from_append:
  "correlated_from earlier (xs @ ys) =
     (correlated_from earlier xs \<and> correlated_from (earlier @ all_request_ids xs) ys)"
  by (induction xs arbitrary: earlier) auto

lemma pending_correlated:
  "pending opened xs = Some opened' \<Longrightarrow> set opened \<subseteq> set earlier \<Longrightarrow>
   distinct (earlier @ all_request_ids xs) \<Longrightarrow> correlated_from earlier xs"
proof (induction xs arbitrary: opened earlier)
  case Nil
  then show ?case by simp
next
  case (Cons m xs)
  show ?case
  proof (cases "is_tool_result m")
    case True
    with Cons.prems(1) obtain rest where
      o: "opened = correlation_id m # rest" and p: "pending rest xs = Some opened'"
      by (auto split: list.splits if_splits)
    from o Cons.prems(2) have mem: "correlation_id m \<in> set earlier" "set rest \<subseteq> set earlier"
      by auto
    from Cons.prems(3) have "distinct earlier" by simp
    with mem have c: "count_list earlier (correlation_id m) = 1" by (simp add: distinct_count_list)
    have "correlated_from (earlier @ request_ids m) xs"
      using Cons.IH[OF p, of "earlier @ request_ids m"] mem(2) Cons.prems(3)
      by (simp add: request_ids_tool_result[OF True])
    with True c show ?thesis by simp
  next
    case False
    with Cons.prems(1) have p: "pending (opened @ request_ids m) xs = Some opened'" by simp
    have "correlated_from (earlier @ request_ids m) xs"
      using Cons.IH[OF p, of "earlier @ request_ids m"] Cons.prems(2,3) by auto
    with False show ?thesis by simp
  qed
qed

lemma pending_ids:
  "pending opened xs = Some opened' \<Longrightarrow>
   tool_result_ids xs @ opened' = opened @ all_request_ids xs"
proof (induction xs arbitrary: opened)
  case Nil
  then show ?case by (simp add: tool_result_ids_def)
next
  case (Cons m xs)
  show ?case
  proof (cases "is_tool_result m")
    case True
    with Cons.prems obtain rest where
      o: "opened = correlation_id m # rest" and p: "pending rest xs = Some opened'"
      by (auto split: list.splits if_splits)
    from Cons.IH[OF p] o True show ?thesis
      by (simp add: tool_result_ids_def request_ids_tool_result)
  next
    case False
    with Cons.prems have p: "pending (opened @ request_ids m) xs = Some opened'" by simp
    from Cons.IH[OF p] False show ?thesis by (simp add: tool_result_ids_def)
  qed
qed

lemma correlated_ids_subset:
  "correlated_from earlier xs \<Longrightarrow>
   set (tool_result_ids xs) \<subseteq> set (earlier @ all_request_ids xs)"
proof (induction xs arbitrary: earlier)
  case Nil
  then show ?case by (simp add: tool_result_ids_def)
next
  case (Cons m xs)
  from Cons.prems have "correlated_from (earlier @ request_ids m) xs" by simp
  from Cons.IH[OF this] have
    "set (tool_result_ids xs) \<subseteq> set (earlier @ request_ids m @ all_request_ids xs)" by simp
  moreover have "correlation_id m \<in> set earlier" if "is_tool_result m"
    using that Cons.prems by (auto intro: count_list_one_member)
  ultimately show ?case by (auto simp: tool_result_ids_def)
qed

lemma appended_correlated:
  assumes "correlated init" "distinct (tool_result_ids init)"
    and "pending [] new = Some opened" "distinct (all_request_ids (init @ new))"
  shows "correlated (init @ new) \<and> distinct (tool_result_ids (init @ new))"
proof -
  have d: "distinct (all_request_ids init @ all_request_ids new)" using assms(4) by simp
  have "correlated_from (all_request_ids init) new"
    using pending_correlated[OF assms(3), of "all_request_ids init"] d by simp
  with assms(1) have c: "correlated (init @ new)"
    by (simp add: correlated_def correlated_from_append)
  from pending_ids[OF assms(3)] have e: "tool_result_ids new @ opened = all_request_ids new"
    by simp
  from d have "distinct (all_request_ids new)" by simp
  with e have dn: "distinct (tool_result_ids new)"
    by (metis distinct_append)
  from e have sn: "set (tool_result_ids new) \<subseteq> set (all_request_ids new)"
    by (metis set_append Un_upper1)
  from correlated_ids_subset[of "[]" init] assms(1)
  have si: "set (tool_result_ids init) \<subseteq> set (all_request_ids init)"
    by (simp add: correlated_def)
  from d have "set (all_request_ids init) \<inter> set (all_request_ids new) = {}" by simp
  with si sn have "set (tool_result_ids init) \<inter> set (tool_result_ids new) = {}" by blast
  with assms(2) dn have "distinct (tool_result_ids (init @ new))" by simp
  with c show ?thesis by blast
qed

text \<open>
  What the loop appends to the conversation reads as requests answered in order: after
  an iteration that continued, and so after any number of them, no request is open.
\<close>

lemma run_agent_iteration_pending:
  assumes "run_agent_iteration env (ms, rt) = (r, ms', rt')"
  shows "\<exists>new opened. ms' = ms @ new \<and> pending [] new = Some opened \<and>
           (r = Inr Continue \<longrightarrow> opened = [])"
proof -
  obtain rr rt1 where rc: "router_call env ms rt = (rr, rt1)" by (cases "router_call env ms rt")
  show ?thesis
  proof (cases rr)
    case (Inl e)
    with assms rc have "ms' = ms @ []" by (simp add: run_agent_iteration_eq)
    moreover have "r \<noteq> Inr Continue" using assms rc Inl by (auto simp: run_agent_iteration_eq)
    ultimately show ?thesis by (intro exI[of _ "[]"]) simp
  next
    case (Inr sm)
    obtain span m where sm: "sm = (span, m)" by (cases sm)
    show ?thesis
    proof (cases "calls_of m = []")
      case True
      with assms rc Inr sm have "ms' = ms @ [Assistant m]" "r \<noteq> Inr Continue"
        by (auto simp: run_agent_iteration_eq)
      moreover have "pending [] [Assistant m] = Some []" using True by simp
      ultimately show ?thesis by blast
    next
      case False
      obtain results exc rt2 where
        da: "dispatch_all env (calls_of m) (snd (span_start ''handle_tool_calls'' CHAIN rt1))
               = ((results, exc), rt2)"
        by (cases "dispatch_all env (calls_of m) (snd (span_start ''handle_tool_calls'' CHAIN rt1))")
           auto
      from dispatch_all_length[OF da] have
        len: "length results \<le> length (calls_of m)"
             "exc = None \<longrightarrow> length results = length (calls_of m)"
        by (auto split: option.splits)
      from assms rc Inr sm False da have
        ms': "ms' = ms @ ([Assistant m] @ tool_messages results (calls_of m))"
        and cont: "r = Inr Continue \<longrightarrow> exc = None"
        by (auto simp: run_agent_iteration_eq split: option.splits)
      have "pending [] ([Assistant m] @ tool_messages results (calls_of m))
              = Some (map (\<lambda>tool_call. PStr (call_id tool_call))
                         (drop (length results) (calls_of m)))"
        using pending_tool_messages[OF len(1), of "[]"] by simp
      with ms' cont len(2) show ?thesis by auto
    qed
  qed
qed

lemma rounds_pending:
  "rounds env k (ms, rt) = Some (ms', rt') \<Longrightarrow>
   \<exists>new. ms' = ms @ new \<and> pending [] new = Some []"
proof (induction k arbitrary: ms rt)
  case 0
  then show ?case by simp
next
  case (Suc k)
  obtain r ms1 rt1 where it: "run_agent_iteration env (ms, rt) = (r, ms1, rt1)"
    by (cases "run_agent_iteration env (ms, rt)") auto
  with Suc.prems have c: "r = Inr Continue" and rest: "rounds env k (ms1, rt1) = Some (ms', rt')"
    by (auto split: sum.splits control.splits)
  from run_agent_iteration_pending[OF it] c obtain new1 where
    n1: "ms1 = ms @ new1" "pending [] new1 = Some []" by blast
  from Suc.IH[OF rest] obtain new2 where
    n2: "ms' = ms1 @ new2" "pending [] new2 = Some []" by blast
  from n1 n2 have "ms' = ms @ (new1 @ new2)" "pending [] (new1 @ new2) = Some []"
    by (simp_all add: pending_append)
  then show ?case by blast
qed

lemma run_agent_loop_pending:
  assumes "run_agent_loop env (ms, rt) = Some (res, final, rt')"
  shows "\<exists>new opened. final = ms @ new \<and> pending [] new = Some opened"
proof -
  from run_agent_loop_Some[OF assms] obtain k st_k where
    k: "rounds env k (ms, rt) = Some st_k" and
    it: "run_agent_iteration env st_k = (map_sum id Return res, final, rt')" by auto
  obtain ms_k rt_k where st_k: "st_k = (ms_k, rt_k)" by (cases st_k)
  from rounds_pending[OF k[unfolded st_k]] obtain new1 where
    n1: "ms_k = ms @ new1" "pending [] new1 = Some []" by blast
  from run_agent_iteration_pending[OF it[unfolded st_k]] obtain new2 opened where
    n2: "final = ms_k @ new2" "pending [] new2 = Some opened" by blast
  from n1 n2 have "final = ms @ (new1 @ new2)" "pending [] (new1 @ new2) = Some opened"
    by (simp_all add: pending_append)
  then show ?thesis by blast
qed

lemma tool_messages_ids:
  "length results = length calls \<Longrightarrow>
   length (tool_messages results calls) = length calls
   \<and> list_all is_tool_result (tool_messages results calls)
   \<and> map correlation_id (tool_messages results calls)
       = map (\<lambda>tool_call. PStr (call_id tool_call)) calls"
  unfolding tool_messages_def
  by (induction results calls rule: list_induct2) simp_all

lemma run_agent_returns:
  "rounds env k (normalize_messages inp, rt) = Some st_k \<Longrightarrow>
   run_agent_iteration env st_k = (Inr (Return answer), st') \<Longrightarrow>
   run_agent env inp rt = Some (Inr answer, st')"
  using rounds_loop[of env k "(normalize_messages inp, rt)" st_k] run_agent_loop_return[of env st_k answer st']
  by (simp add: run_agent_def)

section \<open>More runs of the scripted environments\<close>

lemmas correlation_defs = correlated_def tool_result_ids_def all_request_ids_def
  is_tool_result_def correlation_id_def request_ids_def calls_of_def
  user_message_def system_message_def tool_message_def lookup_call_def

lemma sales_run:
  "\<exists>st_k st'.
     rounds (scripted sales_script) (Suc 0)
       (normalize_messages (Text ''What were total sales last week?''), start) = Some st_k
     \<and> run_agent_iteration (scripted sales_script) st_k
         = (Inr (Return (Some ''Total sales were 42.'')), st')
     \<and> fst st' =
         [user_message ''What were total sales last week?'', system_message,
          Assistant (ChatMessage None (Some [lookup_call])),
          tool_message ''total 42'' ''call_1'',
          Assistant (ChatMessage (Some ''Total sales were 42.'') None)]"
  by (simp add: agent_defs tool_defs statement_defs scripted_defs sales_script_def)

lemma orphan_run:
  "\<exists>st'.
     run_agent_iteration (scripted answered_script)
       (normalize_messages (Conversation [tool_message ''rows'' ''call_9'']), start)
         = (Inr (Return (Some ''done'')), st')
     \<and> fst st' =
         [tool_message ''rows'' ''call_9'', system_message,
          Assistant (ChatMessage (Some ''done'') None)]"
  by (simp add: agent_defs tool_defs statement_defs scripted_defs answered_script_def)

lemma repeated_id_run:
  "\<exists>st_k st'.
     rounds (scripted repeated_id_script) (Suc 0) (normalize_messages (Text ''hi''), start)
       = Some st_k
     \<and> run_agent_iteration (scripted repeated_id_script) st_k
         = (Inr (Return (Some ''done'')), st')
     \<and> fst st' =
         [user_message ''hi'', system_message,
          Assistant (ChatMessage None (Some [lookup_call, lookup_call])),
          tool_message ''total 42'' ''call_1'', tool_message ''total 42'' ''call_1'',
          Assistant (ChatMessage (Some ''done'') None)]"
  by (simp add: agent_defs tool_defs statement_defs scripted_defs repeated_id_script_def)

text \<open>
  Every iteration that returns leaves this trace: the output of the span is set after the
  span has ended.
\<close>

lemma run_agent_iteration_return_spans:
  assumes "run_agent_iteration env (ms, rt) = (Inr (Return answer), ms', rt')"
  shows "spans rt' = spans rt @
           [Start (length (spans rt)) ''router_call'' CHAIN,
            SetInput (length (spans rt)) (SnapMessages ms),
            SetStatus (length (spans rt)) OK,
            End (length (spans rt)) None,
            SetOutput (length (spans rt)) (SnapText answer)]"
  using assms
  by (auto simp: run_agent_iteration_eq router_call_eq Let_def log_def exn_of_def
           split: prod.splits sum.splits if_splits option.splits)

lemma answered_run:
  "\<exists>st'. run_agent_iteration (scripted answered_script) (normalize_messages (Text ''hi''), start)
           = (Inr (Return (Some ''done'')), st')
         \<and> spans (snd st') =
             [Start 0 ''router_call'' CHAIN,
              SetInput 0 (SnapMessages [user_message ''hi'', system_message]),
              SetStatus 0 OK,
              End 0 None,
              SetOutput 0 (SnapText (Some ''done''))]"
  by (simp add: agent_defs tool_defs statement_defs scripted_defs answered_script_def)

lemma answered_main_run:
  "\<exists>st'. run_agent_iteration (scripted answered_script)
            (normalize_messages (Text ''hi''),
             snd (set_input 0 (SnapText (Some ''hi''))
                    (snd (span_start ''AgentRun'' AGENT start))))
           = (Inr (Return (Some ''done'')), st')
         \<and> spans (snd st') =
             [Start 0 ''AgentRun'' AGENT,
              SetInput 0 (SnapText (Some ''hi'')),
              Start 2 ''router_call'' CHAIN,
              SetInput 2 (SnapMessages [user_message ''hi'', system_message]),
              SetStatus 2 OK,
              End 2 None,
              SetOutput 2 (SnapText (Some ''done''))]"
  by (simp add: agent_defs tool_defs statement_defs scripted_defs answered_script_def
      numeral_2_eq_2)

section \<open>Calls of the analysis tool\<close>

lemma dispatch_analyze:
  assumes "function_name tc = ''analyze_sales_data''"
    and "json_loads env (function_arguments tc) = Inr function_args"
    and "keyword_arguments [''prompt'', ''data''] function_args = Inr [prompt, data]"
  shows "dispatch env tc rt = analyze_sales_data env prompt data rt"
  using assms
  by (simp add: dispatch_def seq_def lift_def tool_implementations_def call_tool_def)

lemma silent_analysis:
  "\<exists>rt'. analyze_sales_data (scripted (\<lambda>n. Inr [ChatMessage None None]))
            (PStr ''how did sales do'') (PStr ''total 42'') start
          = (Inr ''No analysis could be generated'', rt')"
  by (simp add: tool_defs statement_defs scripted_defs)

lemma empty_analysis:
  "\<exists>rt'. analyze_sales_data (scripted (\<lambda>n. Inr [ChatMessage (Some []) None]))
            (PStr ''how did sales do'') (PStr ''total 42'') start
          = (Inr ''No analysis could be generated'', rt')"
  by (simp add: tool_defs statement_defs scripted_defs)

section \<open>When the loop ends\<close>

text \<open>
  Claim C1, as the code has it. The loop returns exactly when, after some number of
  iterations in which the model asked for tool calls and every call was dispatched
  without an exception, the model gives a response with no tool calls (\<^verbatim>\<open>None\<close> or an
  empty list); it then returns the content of that response, which is the first such
  response, since every iteration before it had tool calls. The only other way out of
  the loop is an exception raised in an iteration, by the model request or by a tool
  dispatch. If every iteration goes on to the next one, the run never ends; and with a
  model that puts at least one tool call in every response the loop never returns.
\<close>

theorem run_agent_termination:
  "(\<forall>k st_k m.
      rounds env k (normalize_messages inp, rt) = Some st_k \<and>
      model_response env st_k = Inr m \<and> calls_of m = [] \<longrightarrow>
      run_agent env inp rt = Some (Inr (content m), snd (run_agent_iteration env st_k)))
   \<and> (\<forall>answer st'.
        run_agent env inp rt = Some (Inr answer, st') \<longrightarrow>
        (\<exists>k st_k m. rounds env k (normalize_messages inp, rt) = Some st_k \<and>
           model_response env st_k = Inr m \<and> calls_of m = [] \<and> answer = content m))
   \<and> (\<forall>k st'.
        rounds env (Suc k) (normalize_messages inp, rt) = Some st' \<longrightarrow>
        (\<exists>st_k m. rounds env k (normalize_messages inp, rt) = Some st_k \<and>
           model_response env st_k = Inr m \<and> calls_of m \<noteq> []))
   \<and> (\<forall>e st'.
        run_agent env inp rt = Some (Inl e, st') \<longrightarrow>
        (\<exists>k st_k. rounds env k (normalize_messages inp, rt) = Some st_k \<and>
           run_agent_iteration env st_k = (Inl e, st')))
   \<and> ((\<forall>k. rounds env k (normalize_messages inp, rt) \<noteq> None) \<longrightarrow> run_agent env inp rt = None)
   \<and> ((\<forall>st_k m. model_response env st_k = Inr m \<longrightarrow> calls_of m \<noteq> []) \<longrightarrow>
        (\<forall>answer st'. run_agent env inp rt \<noteq> Some (Inr answer, st')))"
proof -
  let ?st = "(normalize_messages inp, rt)"
  have returns: "run_agent env inp rt = Some (Inr (content m), snd (run_agent_iteration env st_k))"
    if "rounds env k ?st = Some st_k" "model_response env st_k = Inr m" "calls_of m = []"
    for k st_k m
  proof -
    from that(2,3) obtain st' where "run_agent_iteration env st_k = (Inr (Return (content m)), st')"
      using run_agent_iteration_return_iff[of env st_k "content m"] by blast
    then have "run_agent_loop env st_k = Some (Inr (content m), snd (run_agent_iteration env st_k))"
      by (simp add: run_agent_loop_return)
    with rounds_loop[OF that(1)] show ?thesis by (simp add: run_agent_def)
  qed
  have only: "\<exists>k st_k m. rounds env k ?st = Some st_k \<and>
           model_response env st_k = Inr m \<and> calls_of m = [] \<and> answer = content m"
    if "run_agent env inp rt = Some (Inr answer, st')" for answer st'
  proof -
    from that have "run_agent_loop env ?st = Some (Inr answer, st')" by (simp add: run_agent_def)
    from run_agent_loop_Some[OF this] obtain k st_k where
      k: "rounds env k ?st = Some st_k" and
      "run_agent_iteration env st_k = (Inr (Return answer), st')" by auto
    then obtain m where "model_response env st_k = Inr m" "calls_of m = []" "answer = content m"
      using run_agent_iteration_return_iff[of env st_k answer] by blast
    with k show ?thesis by blast
  qed
  have earlier: "\<exists>st_k m. rounds env k ?st = Some st_k \<and>
           model_response env st_k = Inr m \<and> calls_of m \<noteq> []"
    if "rounds env (Suc k) ?st = Some st'" for k st'
  proof -
    have "rounds env (k + Suc 0) ?st = Some st'" using that by simp
    then obtain st_k where k: "rounds env k ?st = Some st_k" and "rounds env (Suc 0) st_k = Some st'"
      unfolding rounds_add by (auto split: option.splits)
    then have "run_agent_iteration env st_k = (Inr Continue, st')"
      by (auto split: prod.splits sum.splits control.splits)
    from run_agent_iteration_continue_calls[OF this] k show ?thesis by blast
  qed
  have raises: "\<exists>k st_k. rounds env k ?st = Some st_k \<and> run_agent_iteration env st_k = (Inl e, st')"
    if "run_agent env inp rt = Some (Inl e, st')" for e st'
  proof -
    from that have "run_agent_loop env ?st = Some (Inl e, st')" by (simp add: run_agent_def)
    from run_agent_loop_Some[OF this] show ?thesis by auto
  qed
  have forever: "run_agent env inp rt = None" if "\<forall>k. rounds env k ?st \<noteq> None"
    using that run_agent_loop_None[of env ?st] by (simp add: run_agent_def)
  have never: "run_agent env inp rt \<noteq> Some (Inr answer, st')"
    if "\<forall>st_k m. model_response env st_k = Inr m \<longrightarrow> calls_of m \<noteq> []" for answer st'
    using that only[of answer st'] by blast
  show ?thesis
    apply (intro conjI allI impI)
    subgoal for k st_k m using returns[of k st_k m] by blast
    subgoal for answer st' using only[of answer st'] by blast
    subgoal for k st' using earlier[of k st'] by blast
    subgoal for e st' using raises[of e st'] by blast
    subgoal using forever by blast
    subgoal for answer st' using never[of answer st'] by blast
    done
qed

theorem run_agent_termination_witness:
  "map_option fst
     (run_agent (scripted sales_script) (Text ''What were total sales last week?'') start)
     = Some (Inr (Some ''Total sales were 42.''))
   \<and> run_agent (scripted looping_script) (Text ''hi'') start = None"
proof -
  from sales_round obtain st1 where
    r: "rounds (scripted sales_script) (Suc 0)
       (normalize_messages (Text ''What were total sales last week?''), start) = Some st1" and
    m: "model_response (scripted sales_script) st1 = Inr (ChatMessage (Some ''Total sales were 42.'') None)"
    by blast
  have c: "calls_of (ChatMessage (Some ''Total sales were 42.'') None) = []"
    by (simp add: calls_of_def)
  from run_agent_termination
      [of "scripted sales_script" "Text ''What were total sales last week?''" start]
  have "rounds (scripted sales_script) (Suc 0)
          (normalize_messages (Text ''What were total sales last week?''), start) = Some st1 \<and>
        model_response (scripted sales_script) st1
          = Inr (ChatMessage (Some ''Total sales were 42.'') None) \<and>
        calls_of (ChatMessage (Some ''Total sales were 42.'') None) = [] \<longrightarrow>
        run_agent (scripted sales_script) (Text ''What were total sales last week?'') start
          = Some (Inr (content (ChatMessage (Some ''Total sales were 42.'') None)),
                  snd (run_agent_iteration (scripted sales_script) st1))"
    by blast
  with r m c have a: "map_option fst
     (run_agent (scripted sales_script) (Text ''What were total sales last week?'') start)
     = Some (Inr (Some ''Total sales were 42.''))"
    by simp
  have b: "run_agent (scripted looping_script) (Text ''hi'') start = None"
    using run_agent_termination [of "scripted looping_script" "Text ''hi''" start] looping_rounds
    by blast
  from a b show ?thesis by blast
qed

text \<open>
  The claim as written fails: here the second response of the model has no tool calls,
  but the first one names a tool that is not registered, and the loop ends with the
  \<^verbatim>\<open>KeyError\<close> of the lookup instead of returning the content \<^verbatim>\<open>done\<close>.
\<close>

theorem run_agent_termination_counterexample:
  "unknown_tool_script 1 = Inr [ChatMessage (Some ''done'') None]
   \<and> map_option fst (run_agent (scripted unknown_tool_script) (Text ''hi'') start)
       = Some (Inl (KeyError ''get_weather''))"
proof -
  from unknown_tool_iteration obtain st' where
    "run_agent_iteration (scripted unknown_tool_script) (normalize_messages (Text ''hi''), start)
          = (Inl (KeyError ''get_weather''), st')" by blast
  from run_agent_loop_raise[OF this] show ?thesis
    by (simp add: run_agent_def unknown_tool_script_def)
qed

section \<open>Normalising the input\<close>

text \<open>
  Claim C2, as the code has it. A bare string becomes a single user message, followed by
  the system message with the fixed prompt. A list that holds no dict with role
  \<^verbatim>\<open>system\<close> gets that system message appended at its end, and then holds exactly one
  system message; a list that holds one or more is left as it is. In every case the
  conversation holds at least one system message before the first model request.
\<close>

theorem normalize_messages_appends_system:
  "normalize_messages (Text s) = [user_message s, system_message]
   \<and> (\<not> list_ex is_system ms \<longrightarrow>
        normalize_messages (Conversation ms) = ms @ [system_message]
        \<and> length (filter is_system (normalize_messages (Conversation ms))) = 1)
   \<and> (list_ex is_system ms \<longrightarrow> normalize_messages (Conversation ms) = ms)
   \<and> list_ex is_system (normalize_messages inp)"
proof -
  have a: "normalize_messages (Text s) = [user_message s, system_message]"
    by (simp add: normalize_messages_def)
  have b: "\<not> list_ex is_system ms \<Longrightarrow> filter is_system ms = []"
    by (induction ms) (auto simp: list_ex_iff)
  have c: "list_ex is_system (normalize_messages inp)"
    by (cases inp) (auto simp: normalize_messages_def Let_def list_ex_iff)
  show ?thesis using a b c by (simp add: normalize_messages_def)
qed

theorem normalize_messages_appends_system_witness:
  "normalize_messages (Text ''hi'') = [user_message ''hi'', system_message]
   \<and> normalize_messages (Conversation [user_message ''hi'']) = [user_message ''hi'', system_message]
   \<and> length (filter is_system (normalize_messages (Conversation [user_message ''hi'']))) = 1
   \<and> normalize_messages (Conversation [system_message, user_message ''hi''])
        = [system_message, user_message ''hi'']"
  using normalize_messages_appends_system [of "''hi''" "[user_message ''hi'']"]
        normalize_messages_appends_system [of "''hi''" "[system_message, user_message ''hi'']"]
  by simp

text \<open>
  The claim as written fails twice: after a bare string the conversation begins with the
  user message, the system prompt coming last; and a list with two system messages keeps
  both.
\<close>

theorem normalize_messages_counterexample:
  "hd (normalize_messages (Text ''hi'')) = user_message ''hi''
   \<and> hd (normalize_messages (Text ''hi'')) \<noteq> system_message
   \<and> length (filter is_system
        (normalize_messages
           (Conversation
              [Dict [(''role'', PStr ''system''), (''content'', PStr ''Be brief.'')],
               Dict [(''role'', PStr ''system''), (''content'', PStr ''Be kind.'')],
               user_message ''hi'']))) = 2"
  by (simp add: normalize_messages_def user_message_def system_message_def is_system_def)

section \<open>Tool results answer the requests, in order\<close>

text \<open>
  Claim C3, as the code has it. \<^verbatim>\<open>handle_tool_calls\<close> dispatches the calls of a response
  one after the other in the order the model gave them, and appends one tool message per
  call dispatched, in that order, each with the identifier of its call as
  \<^verbatim>\<open>tool_call_id\<close>; when no dispatch raises that is one message for every call. So
  after a run of the agent loop, however it ended, every tool-result message carries the
  identifier of exactly one request issued earlier in the conversation and no two
  tool-result messages share an identifier, provided this held of the conversation the
  run started from and the identifiers of the requests in the final conversation are
  pairwise distinct.
\<close>

theorem tool_results_correlated:
  "handle_tool_calls env calls (ms, rt) =
     (case dispatch_all env calls (snd (span_start ''handle_tool_calls'' CHAIN rt)) of
        ((results, exc), rt') \<Rightarrow>
          ((case exc of None \<Rightarrow> Inr () | Some e \<Rightarrow> Inl e),
           ms @ tool_messages results calls,
           span_end (length (spans rt)) exc rt'))
   \<and> (\<forall>rt1 results rt'.
        dispatch_all env calls rt1 = ((results, None), rt') \<longrightarrow>
        length (tool_messages results calls) = length calls
        \<and> list_all is_tool_result (tool_messages results calls)
        \<and> map correlation_id (tool_messages results calls)
            = map (\<lambda>tool_call. PStr (call_id tool_call)) calls)
   \<and> (\<forall>inp rt0 res final rt'.
        run_agent env inp rt0 = Some (res, final, rt') \<and>
        correlated (normalize_messages inp) \<and>
        distinct (tool_result_ids (normalize_messages inp)) \<and>
        distinct (all_request_ids final) \<longrightarrow>
        correlated final \<and> distinct (tool_result_ids final))"
proof (intro conjI allI impI)
  show "handle_tool_calls env calls (ms, rt) =
     (case dispatch_all env calls (snd (span_start ''handle_tool_calls'' CHAIN rt)) of
        ((results, exc), rt') \<Rightarrow>
          ((case exc of None \<Rightarrow> Inr () | Some e \<Rightarrow> Inl e),
           ms @ tool_messages results calls,
           span_end (length (spans rt)) exc rt'))"
    by (rule handle_tool_calls_eq)
next
  fix rt1 results rt'
  assume a: "dispatch_all env calls rt1 = ((results, None), rt')"
  from dispatch_all_length[OF a] have l: "length results = length calls" by simp
  from tool_messages_ids[OF l]
  show "length (tool_messages results calls) = length calls"
    "list_all is_tool_result (tool_messages results calls)"
    "map correlation_id (tool_messages results calls)
       = map (\<lambda>tool_call. PStr (call_id tool_call)) calls"
    by blast+
next
  fix inp rt0 res final rt'
  assume a: "run_agent env inp rt0 = Some (res, final, rt') \<and>
        correlated (normalize_messages inp) \<and>
        distinct (tool_result_ids (normalize_messages inp)) \<and>
        distinct (all_request_ids final)"
  then have "run_agent_loop env (normalize_messages inp, rt0) = Some (res, final, rt')"
    by (simp add: run_agent_def)
  from run_agent_loop_pending[OF this] obtain new opened where
    n: "final = normalize_messages inp @ new" "pending [] new = Some opened" by blast
  from appended_correlated[OF _ _ n(2), of "normalize_messages inp"] a n(1)
  show "correlated final" "distinct (tool_result_ids final)" by auto
qed

theorem tool_results_correlated_witness:
  "map_option (\<lambda>r. (length (fst (snd r)), correlated (fst (snd r)),
                     distinct (tool_result_ids (fst (snd r)))))
     (run_agent (scripted sales_script) (Text ''What were total sales last week?'') start)
   = Some (5, True, True)"
proof -
  let ?inp = "Text ''What were total sales last week?''"
  from sales_run obtain st_k st' where
    r: "rounds (scripted sales_script) (Suc 0) (normalize_messages ?inp, start) = Some st_k"
       "run_agent_iteration (scripted sales_script) st_k
          = (Inr (Return (Some ''Total sales were 42.'')), st')"
    and f: "fst st' =
         [user_message ''What were total sales last week?'', system_message,
          Assistant (ChatMessage None (Some [lookup_call])),
          tool_message ''total 42'' ''call_1'',
          Assistant (ChatMessage (Some ''Total sales were 42.'') None)]" by blast
  from run_agent_returns[OF r] have
    run: "run_agent (scripted sales_script) ?inp start
            = Some (Inr (Some ''Total sales were 42.''), fst st', snd st')" by simp
  have i: "correlated (normalize_messages ?inp)"
          "distinct (tool_result_ids (normalize_messages ?inp))"
    by (simp_all add: normalize_messages_def is_system_def correlation_defs)
  have d: "distinct (all_request_ids (fst st'))"
    unfolding f by (simp add: correlation_defs)
  from tool_results_correlated [of "scripted sales_script" "[]" "[]" start] run i d
  have "correlated (fst st') \<and> distinct (tool_result_ids (fst st'))" by blast
  with run f show ?thesis by simp
qed

text \<open>
  The claim as written fails on a conversation that comes in with a tool result nobody
  asked for, and on a model that gives two calls the same identifier: the loop checks
  neither.
\<close>

theorem tool_results_correlated_counterexample:
  "map_option (\<lambda>r. (fst r, correlated (fst (snd r))))
     (run_agent (scripted answered_script) (Conversation [tool_message ''rows'' ''call_9''])
        start)
   = Some (Inr (Some ''done''), False)
   \<and> map_option (\<lambda>r. (fst r, correlated (fst (snd r)),
                        distinct (tool_result_ids (fst (snd r)))))
     (run_agent (scripted repeated_id_script) (Text ''hi'') start)
   = Some (Inr (Some ''done''), False, False)"
proof -
  from orphan_run obtain st' where
    o: "run_agent_iteration (scripted answered_script)
          (normalize_messages (Conversation [tool_message ''rows'' ''call_9'']), start)
            = (Inr (Return (Some ''done'')), st')"
    and of': "fst st' =
         [tool_message ''rows'' ''call_9'', system_message,
          Assistant (ChatMessage (Some ''done'') None)]" by blast
  have "rounds (scripted answered_script) 0
          (normalize_messages (Conversation [tool_message ''rows'' ''call_9'']), start)
        = Some (normalize_messages (Conversation [tool_message ''rows'' ''call_9'']), start)"
    by simp
  from run_agent_returns[OF this o] have
    "run_agent (scripted answered_script) (Conversation [tool_message ''rows'' ''call_9'']) start
       = Some (Inr (Some ''done''), fst st', snd st')" by simp
  then have first: "map_option (\<lambda>r. (fst r, correlated (fst (snd r))))
     (run_agent (scripted answered_script) (Conversation [tool_message ''rows'' ''call_9''])
        start)
   = Some (Inr (Some ''done''), False)"
    unfolding of' by (simp add: correlation_defs)
  from repeated_id_run obtain st_k st'' where
    r: "rounds (scripted repeated_id_script) (Suc 0) (normalize_messages (Text ''hi''), start)
          = Some st_k"
       "run_agent_iteration (scripted repeated_id_script) st_k
          = (Inr (Return (Some ''done'')), st'')"
    and f: "fst st'' =
         [user_message ''hi'', system_message,
          Assistant (ChatMessage None (Some [lookup_call, lookup_call])),
          tool_message ''total 42'' ''call_1'', tool_message ''total 42'' ''call_1'',
          Assistant (ChatMessage (Some ''done'') None)]" by blast
  from run_agent_returns[OF r] have
    "run_agent (scripted repeated_id_script) (Text ''hi'') start
       = Some (Inr (Some ''done''), fst st'', snd st'')" by simp
  then have second: "map_option (\<lambda>r. (fst r, correlated (fst (snd r)),
                        distinct (tool_result_ids (fst (snd r)))))
     (run_agent (scripted repeated_id_script) (Text ''hi'') start)
   = Some (Inr (Some ''done''), False, False)"
    unfolding f by (simp add: correlation_defs)
  from first second show ?thesis by blast
qed

section \<open>A dispatch that fails\<close>

text \<open>
  Claim C4. For a tool call whose name is not a key of \<^verbatim>\<open>tool_implementations\<close> the
  dispatch raises the \<^verbatim>\<open>KeyError\<close> of the lookup, and for a call whose name is
  registered but whose arguments \<^verbatim>\<open>json.loads\<close> rejects it raises the decoding error.
  In both cases the dispatch changes nothing, \<^verbatim>\<open>handle_tool_calls\<close> appends no message
  for that call (the conversation holds the messages of the calls dispatched before it
  and nothing more), and the exception leaves the agent loop: the run ends with it.
\<close>

theorem failed_dispatch_propagates:
  assumes "(map_of tool_implementations (function_name tc) = None \<and>
            e = KeyError (function_name tc))
         \<or> (map_of tool_implementations (function_name tc) \<noteq> None \<and>
            json_loads env (function_arguments tc) = Inl e)"
  shows "(\<forall>rt'. dispatch env tc rt' = (Inl e, rt'))
       \<and> (\<forall>pre rest results ms rt' rt''.
            dispatch_all env pre rt' = ((results, None), rt'') \<longrightarrow>
            handle_tool_calls_loop env (pre @ tc # rest) (ms, rt') =
              (Inl e, ms @ tool_messages results pre, rt'')
            \<and> length results = length pre)
       \<and> (\<forall>inp rt k ms rt0 span m rt1 pre rest results rt2.
            rounds env k (normalize_messages inp, rt) = Some (ms, rt0) \<and>
            router_call env ms rt0 = (Inr (span, m), rt1) \<and>
            calls_of m = pre @ tc # rest \<and>
            dispatch_all env pre (snd (span_start ''handle_tool_calls'' CHAIN rt1))
              = ((results, None), rt2) \<longrightarrow>
            run_agent env inp rt =
              Some (Inl e,
                    ms @ [Assistant m] @ tool_messages results pre,
                    span_end (length (spans rt1)) (Some e) rt2))"
proof -
  have d: "dispatch env tc rt' = (Inl e, rt')" for rt'
    using assms by (auto simp: dispatch_unknown dispatch_malformed)
  have all: "dispatch_all env (pre @ tc # rest) rt' = ((results, Some e), rt'')"
    if "dispatch_all env pre rt' = ((results, None), rt'')" for pre rest results rt' rt''
    using that d by (simp add: dispatch_all_append)
  have len: "length results = length pre"
    if "dispatch_all env pre rt' = ((results, None), rt'')" for pre results rt' rt''
    using dispatch_all_length[OF that] by simp
  have h: "handle_tool_calls_loop env (pre @ tc # rest) (ms, rt') =
              (Inl e, ms @ tool_messages results pre, rt'')"
    if "dispatch_all env pre rt' = ((results, None), rt'')" for pre rest results ms rt' rt''
    using all[OF that] len[OF that]
    by (simp add: handle_tool_calls_loop_eq tool_messages_prefix)
  have r: "run_agent env inp rt =
              Some (Inl e,
                    ms @ [Assistant m] @ tool_messages results pre,
                    span_end (length (spans rt1)) (Some e) rt2)"
    if "rounds env k (normalize_messages inp, rt) = Some (ms, rt0)"
      "router_call env ms rt0 = (Inr (span, m), rt1)"
      "calls_of m = pre @ tc # rest"
      "dispatch_all env pre (snd (span_start ''handle_tool_calls'' CHAIN rt1))
         = ((results, None), rt2)"
    for inp rt k ms rt0 span m rt1 pre rest results rt2
  proof -
    have "run_agent_iteration env (ms, rt0) =
            (Inl e, ms @ [Assistant m] @ tool_messages results pre,
             span_end (length (spans rt1)) (Some e) rt2)"
      using that(2,3) all[OF that(4)] len[OF that(4)]
      by (simp add: run_agent_iteration_eq tool_messages_prefix)
    from run_agent_loop_raise[OF this] rounds_loop[OF that(1)]
    show ?thesis by (simp add: run_agent_def)
  qed
  show ?thesis
    apply (intro conjI allI impI)
    subgoal for rt' by (rule d)
    subgoal for pre rest results ms rt' rt'' by (rule h)
    subgoal for pre rest results ms rt' rt'' by (rule len)
    subgoal for inp rt k ms rt0 span m rt1 pre rest results rt2
      using r[of k inp rt ms rt0 span m rt1 pre rest results rt2] by blast
    done
qed

theorem failed_dispatch_propagates_witness:
  "map_option (\<lambda>r. (fst r, fst (snd r)))
     (run_agent (scripted second_unknown_script) (Text ''hi'') start)
   = Some (Inl (KeyError ''get_weather''),
           [user_message ''hi'', system_message,
            Assistant (ChatMessage None
              (Some [lookup_call, ToolCall ''call_2'' ''get_weather'' ''{}''])),
            tool_message ''total 42'' ''call_1''])
   \<and> map_option (\<lambda>r. (fst r, fst (snd r)))
     (run_agent (scripted malformed_script) (Text ''hi'') start)
   = Some (Inl (Raised ''JSONDecodeError''),
           [user_message ''hi'', system_message,
            Assistant (ChatMessage None
              (Some [ToolCall ''call_1'' ''lookup_sales_data'' ''{prompt'' ]))])"
proof -
  let ?unknown = "ToolCall ''call_2'' ''get_weather'' ''{}''"
  let ?bad = "ToolCall ''call_1'' ''lookup_sales_data'' ''{prompt''"
  from second_unknown_run obtain span m rt1 results rt2 where
    a: "router_call (scripted second_unknown_script) (normalize_messages (Text ''hi'')) start
          = (Inr (span, m), rt1)"
       "calls_of m = [lookup_call] @ ?unknown # []"
       "dispatch_all (scripted second_unknown_script) [lookup_call]
          (snd (span_start ''handle_tool_calls'' CHAIN rt1)) = ((results, None), rt2)"
       "results = [''total 42'']"
       "m = ChatMessage None (Some [lookup_call, ?unknown])"
    by blast
  have u: "(map_of tool_implementations (function_name ?unknown) = None \<and>
            KeyError ''get_weather'' = KeyError (function_name ?unknown))
         \<or> (map_of tool_implementations (function_name ?unknown) \<noteq> None \<and>
            json_loads (scripted second_unknown_script) (function_arguments ?unknown)
              = Inl (KeyError ''get_weather''))"
    by (simp add: tool_implementations_def)
  have r0: "rounds (scripted second_unknown_script) 0 (normalize_messages (Text ''hi''), start)
          = Some (normalize_messages (Text ''hi''), start)" by simp
  from failed_dispatch_propagates[OF u] r0 a(1,2,3)
  have "run_agent (scripted second_unknown_script) (Text ''hi'') start =
          Some (Inl (KeyError ''get_weather''),
                normalize_messages (Text ''hi'') @ [Assistant m] @ tool_messages results [lookup_call],
                span_end (length (spans rt1)) (Some (KeyError ''get_weather'')) rt2)"
    by blast
  then have first: "map_option (\<lambda>r. (fst r, fst (snd r)))
     (run_agent (scripted second_unknown_script) (Text ''hi'') start)
   = Some (Inl (KeyError ''get_weather''),
           [user_message ''hi'', system_message,
            Assistant (ChatMessage None (Some [lookup_call, ?unknown])),
            tool_message ''total 42'' ''call_1''])"
    using a(4,5) by (simp add: tool_messages_def lookup_call_def normalize_messages_def)
  from malformed_run obtain span' m' rt1' where
    b: "router_call (scripted malformed_script) (normalize_messages (Text ''hi'')) start
          = (Inr (span', m'), rt1')"
       "m' = ChatMessage None (Some [?bad])"
    by blast
  have c: "calls_of m' = [] @ ?bad # []" using b(2) by (simp add: calls_of_def)
  have v: "(map_of tool_implementations (function_name ?bad) = None \<and>
            Raised ''JSONDecodeError'' = KeyError (function_name ?bad))
         \<or> (map_of tool_implementations (function_name ?bad) \<noteq> None \<and>
            json_loads (scripted malformed_script) (function_arguments ?bad)
              = Inl (Raised ''JSONDecodeError''))"
    by (simp add: tool_implementations_def scripted_defs)
  have r1: "rounds (scripted malformed_script) 0 (normalize_messages (Text ''hi''), start)
          = Some (normalize_messages (Text ''hi''), start)" by simp
  have e: "dispatch_all (scripted malformed_script) []
             (snd (span_start ''handle_tool_calls'' CHAIN rt1'))
           = (([], None), snd (span_start ''handle_tool_calls'' CHAIN rt1'))" by simp
  from failed_dispatch_propagates[OF v] r1 b(1) c e
  have "run_agent (scripted malformed_script) (Text ''hi'') start =
          Some (Inl (Raised ''JSONDecodeError''),
                normalize_messages (Text ''hi'') @ [Assistant m'] @ tool_messages [] [],
                span_end (length (spans rt1')) (Some (Raised ''JSONDecodeError''))
                  (snd (span_start ''handle_tool_calls'' CHAIN rt1')))"
    by blast
  then have second: "map_option (\<lambda>r. (fst r, fst (snd r)))
     (run_agent (scripted malformed_script) (Text ''hi'') start)
   = Some (Inl (Raised ''JSONDecodeError''),
           [user_message ''hi'', system_message, Assistant (ChatMessage None (Some [?bad]))])"
    using b(2) by (simp add: tool_messages_def normalize_messages_def)
  from first second show ?thesis by blast
qed

section \<open>The fallback chart configuration\<close>

text \<open>
  Claim C5, as the code has it. When the structured-output call has returned and a chart
  configuration cannot be read from its response (the \<^verbatim>\<open>try\<close> block raises),
  \<^verbatim>\<open>extract_chart_config\<close> does not raise: it returns the dict with chart type
  \<^verbatim>\<open>line\<close>, x axis \<^verbatim>\<open>date\<close>, y axis \<^verbatim>\<open>value\<close>, the visualization goal as title, and a
  fifth entry \<^verbatim>\<open>data\<close> holding the data argument.
\<close>

theorem extract_chart_config_fallback:
  assumes "chat_completions_parse env
             [user_message (CHART_CONFIGURATION_PROMPT (fmt env data) (fmt env visualization_goal))]
             (world rt) = (Inr choices, w)"
    and "extract_chart_config_try choices data = Inl e"
  shows "fst (extract_chart_config env data visualization_goal rt) =
           Inr [(''chart_type'', PStr ''line''), (''x_axis'', PStr ''date''),
                (''y_axis'', PStr ''value''), (''title'', visualization_goal),
                (''data'', data)]"
  using assms by (simp add: extract_chart_config_eq Let_def)

theorem extract_chart_config_fallback_witness:
  "fst (extract_chart_config (scripted sales_script) (PStr ''rows'') (PStr ''sales by week'') start)
     = Inr [(''chart_type'', PStr ''line''), (''x_axis'', PStr ''date''),
            (''y_axis'', PStr ''value''), (''title'', PStr ''sales by week''),
            (''data'', PStr ''rows'')]"
  using extract_chart_config_fallback
          [where env = "scripted sales_script" and data = "PStr ''rows''"
             and visualization_goal = "PStr ''sales by week''" and rt = start
             and choices = "[[]]" and w = "Suc 0" and e = AttributeError]
  by (simp add: scripted_def start_def extract_chart_config_try_def getitem0_def getattr_def)

text \<open>
  The claim as written fails twice. The structured-output call stands before the
  \<^verbatim>\<open>try\<close>, so when the call itself raises, \<^verbatim>\<open>extract_chart_config\<close> raises; and the
  configuration of the fallback is not the dict of the four fields, since it holds the
  entry \<^verbatim>\<open>data\<close> as well.
\<close>

theorem extract_chart_config_fallback_counterexample:
  "fst (extract_chart_config parse_raises (PStr ''rows'') (PStr ''sales by week'') start)
     = Inl (Raised ''ValidationError'')
   \<and> fst (extract_chart_config (scripted sales_script) (PStr ''rows'') (PStr ''sales by week'')
            start)
     \<noteq> Inr [(''chart_type'', PStr ''line''), (''x_axis'', PStr ''date''),
             (''y_axis'', PStr ''value''), (''title'', PStr ''sales by week'')]"
  by (simp add: extract_chart_config_eq Let_def parse_raises_def scripted_def start_def
      extract_chart_config_try_def getitem0_def getattr_def)

section \<open>The data lookup keeps its errors\<close>

text \<open>
  Claim C6. \<^verbatim>\<open>lookup_sales_data\<close> never raises. When a step of its \<^verbatim>\<open>try\<close> block raises
  an exception \<open>e\<close> (for instance reading the data file), it returns the string
  \<^verbatim>\<open>Error accessing data: \<close> followed by \<^verbatim>\<open>str(e)\<close>, and the message that
  \<^verbatim>\<open>handle_tool_calls\<close> appends for the call is the dict with role \<^verbatim>\<open>tool\<close>, that
  string as its \<^verbatim>\<open>content\<close>, and the identifier of the call.
\<close>

theorem lookup_sales_data_contains_errors:
  "(\<exists>result rt'. lookup_sales_data env prompt rt = (Inr result, rt'))
   \<and> (read_parquet env TRANSACTION_DATA_FILE_PATH (world rt) = (Inl e0, w) \<longrightarrow>
        fst (lookup_sales_data env prompt rt) = Inr (''Error accessing data: '' @ str_exn env e0))
   \<and> (lookup_sales_data_try env prompt (snd (span_start ''lookup_sales_data'' TOOL rt)) = (Inl e, rt1)
        \<longrightarrow>
        lookup_sales_data env prompt rt =
          (Inr (''Error accessing data: '' @ str_exn env e), span_end (length (spans rt)) None rt1)
        \<and> (function_name tc = ''lookup_sales_data'' \<and>
             json_loads env (function_arguments tc) = Inr (PDict [(''prompt'', prompt)]) \<longrightarrow>
             handle_tool_calls_loop env (tc # rest) (ms, rt) =
               handle_tool_calls_loop env rest
                 (ms @ [Dict [(''role'', PStr ''tool''),
                              (''content'', PStr (''Error accessing data: '' @ str_exn env e)),
                              (''tool_call_id'', PStr (call_id tc))]],
                  span_end (length (spans rt)) None rt1)))"
proof (intro conjI impI)
  show "\<exists>result rt'. lookup_sales_data env prompt rt = (Inr result, rt')"
    by (simp add: lookup_sales_data_eq split: prod.splits)
next
  assume "read_parquet env TRANSACTION_DATA_FILE_PATH (world rt) = (Inl e0, w)"
  then have "read_parquet env TRANSACTION_DATA_FILE_PATH
               (world (snd (span_start ''lookup_sales_data'' TOOL rt))) = (Inl e0, w)"
    by (simp add: span_start_def log_def)
  from lookup_sales_data_try_read_parquet[OF this]
  show "fst (lookup_sales_data env prompt rt) = Inr (''Error accessing data: '' @ str_exn env e0)"
    by (simp add: lookup_sales_data_eq)
next
  assume a: "lookup_sales_data_try env prompt (snd (span_start ''lookup_sales_data'' TOOL rt))
               = (Inl e, rt1)"
  then show b: "lookup_sales_data env prompt rt =
          (Inr (''Error accessing data: '' @ str_exn env e), span_end (length (spans rt)) None rt1)"
    by (simp add: lookup_sales_data_eq)
  assume "function_name tc = ''lookup_sales_data'' \<and>
          json_loads env (function_arguments tc) = Inr (PDict [(''prompt'', prompt)])"
  then have "dispatch env tc rt = lookup_sales_data env prompt rt"
    by (simp add: dispatch_lookup)
  with b show "handle_tool_calls_loop env (tc # rest) (ms, rt) =
               handle_tool_calls_loop env rest
                 (ms @ [Dict [(''role'', PStr ''tool''),
                              (''content'', PStr (''Error accessing data: '' @ str_exn env e)),
                              (''tool_call_id'', PStr (call_id tc))]],
                  span_end (length (spans rt)) None rt1)"
    by (simp add: tool_message_def)
qed

theorem lookup_sales_data_contains_errors_witness:
  "fst (lookup_sales_data no_parquet (PStr ''total sales last week'') start)
     = Inr ''Error accessing data: FileNotFoundError''
   \<and> fst (snd (handle_tool_calls_loop no_parquet [lookup_call] ([], start)))
     = [Dict [(''role'', PStr ''tool''),
              (''content'', PStr ''Error accessing data: FileNotFoundError''),
              (''tool_call_id'', PStr ''call_1'')]]"
proof -
  from no_parquet_try obtain rt1 where
    t: "lookup_sales_data_try no_parquet (PStr ''total sales last week'')
          (snd (span_start ''lookup_sales_data'' TOOL start))
        = (Inl (Raised ''FileNotFoundError''), rt1)" by blast
  have n: "function_name lookup_call = ''lookup_sales_data''"
    by (simp add: lookup_call_def)
  have d: "json_loads no_parquet (function_arguments lookup_call)
             = Inr (PDict [(''prompt'', PStr ''total sales last week'')])"
    by (simp add: no_parquet_def scripted_defs)
  have s: "str_exn no_parquet (Raised ''FileNotFoundError'') = ''FileNotFoundError''"
    by (simp add: no_parquet_def scripted_defs)
  from lookup_sales_data_contains_errors
         [where env = no_parquet and prompt = "PStr ''total sales last week''" and rt = start
            and e = "Raised ''FileNotFoundError''" and ?rt1.0 = rt1 and tc = lookup_call
            and rest = "[]" and ms = "[]"]
       t n d s
  show ?thesis by (simp add: lookup_call_def)
qed

section \<open>The span of an iteration\<close>

text \<open>
  Claim C7, on the run \<^verbatim>\<open>run_agent("hi")\<close> with a model that answers at once. The span
  \<^verbatim>\<open>router_call\<close> of the iteration is started once and ended once, with status \<^verbatim>\<open>OK\<close>
  set before it ends, but its output is set after it has ended: \<^verbatim>\<open>span.set_output\<close>
  stands after the \<^verbatim>\<open>with\<close> block in \<^verbatim>\<open>run_agent\<close>. Under \<^verbatim>\<open>start_main_span\<close> the span
  \<^verbatim>\<open>AgentRun\<close> has its output set before it ends, as the claim asks of every span.
\<close>

theorem router_call_output_after_end:
  "map_option (\<lambda>r. spans (snd (snd r)))
     (run_agent (scripted answered_script) (Text ''hi'') start)
   = Some [Start 0 ''router_call'' CHAIN,
           SetInput 0 (SnapMessages [user_message ''hi'', system_message]),
           SetStatus 0 OK,
           End 0 None,
           SetOutput 0 (SnapText (Some ''done''))]
   \<and> map_option (\<lambda>r. spans (snd (snd r)))
     (start_main_span (scripted answered_script) (Text ''hi'') start)
   = Some [Start 0 ''AgentRun'' AGENT,
           SetInput 0 (SnapText (Some ''hi'')),
           Start 2 ''router_call'' CHAIN,
           SetInput 2 (SnapMessages [user_message ''hi'', system_message]),
           SetStatus 2 OK,
           End 2 None,
           SetOutput 2 (SnapText (Some ''done'')),
           SetOutput 0 (SnapText (Some ''done'')),
           SetStatus 0 OK,
           End 0 None]"
proof -
  from answered_run obtain st' where
    a: "run_agent_iteration (scripted answered_script) (normalize_messages (Text ''hi''), start)
           = (Inr (Return (Some ''done'')), st')"
    and s: "spans (snd st') =
             [Start 0 ''router_call'' CHAIN,
              SetInput 0 (SnapMessages [user_message ''hi'', system_message]),
              SetStatus 0 OK,
              End 0 None,
              SetOutput 0 (SnapText (Some ''done''))]" by blast
  from run_agent_loop_return[OF a] s have first:
    "map_option (\<lambda>r. spans (snd (snd r)))
       (run_agent (scripted answered_script) (Text ''hi'') start)
     = Some [Start 0 ''router_call'' CHAIN,
             SetInput 0 (SnapMessages [user_message ''hi'', system_message]),
             SetStatus 0 OK,
             End 0 None,
             SetOutput 0 (SnapText (Some ''done''))]"
    by (simp add: run_agent_def)
  let ?rt2 = "snd (set_input 0 (SnapText (Some ''hi''))
                    (snd (span_start ''AgentRun'' AGENT start)))"
  from answered_main_run obtain st'' where
    b: "run_agent_iteration (scripted answered_script) (normalize_messages (Text ''hi''), ?rt2)
           = (Inr (Return (Some ''done'')), st'')"
    and t: "spans (snd st'') =
             [Start 0 ''AgentRun'' AGENT,
              SetInput 0 (SnapText (Some ''hi'')),
              Start 2 ''router_call'' CHAIN,
              SetInput 2 (SnapMessages [user_message ''hi'', system_message]),
              SetStatus 2 OK,
              End 2 None,
              SetOutput 2 (SnapText (Some ''done''))]" by blast
  from run_agent_loop_return[OF b] have
    "run_agent (scripted answered_script) (Text ''hi'') ?rt2
       = Some (Inr (Some ''done''), fst st'', snd st'')"
    by (simp add: run_agent_def)
  then have second:
    "map_option (\<lambda>r. spans (snd (snd r)))
       (start_main_span (scripted answered_script) (Text ''hi'') start)
     = Some [Start 0 ''AgentRun'' AGENT,
             SetInput 0 (SnapText (Some ''hi'')),
             Start 2 ''router_call'' CHAIN,
             SetInput 2 (SnapMessages [user_message ''hi'', system_message]),
             SetStatus 2 OK,
             End 2 None,
             SetOutput 2 (SnapText (Some ''done'')),
             SetOutput 0 (SnapText (Some ''done'')),
             SetStatus 0 OK,
             End 0 None]"
    using t
    by (cases st'')
       (simp add: start_main_span_def span_start_def span_end_def set_input_def log_def start_def)
  from first second show ?thesis by blast
qed

section \<open>The benchmark harness installs for the first file that exists\<close>

text \<open>
  Claim C8. The harness probes for \<^verbatim>\<open>requirements.txt\<close>, then \<^verbatim>\<open>setup.py\<close>, then
  \<^verbatim>\<open>pyproject.toml\<close>: whatever the repository holds, the commands it runs to install
  dependencies are the command of the first of the three files that exists and nothing
  else, so at most one install command runs (none when none of the files exists).
\<close>

theorem install_dependencies_first_existing:
  "install_dependencies exists repo_path =
     (case List.find (\<lambda>(file, command). exists (path_join repo_path file)) install_priority of
        None \<Rightarrow> []
      | Some (file, command) \<Rightarrow> [(command, repo_path)])
   \<and> length (install_dependencies exists repo_path) \<le> 1"
  by (simp add: install_dependencies_def install_priority_def)

theorem install_dependencies_first_existing_witness:
  "install_dependencies (\<lambda>f. f = ''o__r/setup.py'' \<or> f = ''o__r/pyproject.toml'') ''o__r''
     = [([''pip'', ''install'', ''-e'', ''.''], ''o__r'')]"
  using install_dependencies_first_existing
    [of "\<lambda>f. f = ''o__r/setup.py'' \<or> f = ''o__r/pyproject.toml''" "''o__r''"]
  by (simp add: install_priority_def path_join_def)

section \<open>The analysis is never empty\<close>

text \<open>
  Claim C9. Whatever \<^verbatim>\<open>analyze_sales_data\<close> returns is a non-empty string: for a model
  response whose content is \<^verbatim>\<open>None\<close> or the empty string it returns
  \<^verbatim>\<open>No analysis could be generated\<close>, and otherwise the content itself. The message
  that \<^verbatim>\<open>handle_tool_calls\<close> appends for a call of the tool is the dict with role
  \<^verbatim>\<open>tool\<close> and that non-empty string as its \<^verbatim>\<open>content\<close>, so the content appended to
  the conversation is never empty and never \<^verbatim>\<open>None\<close>.
\<close>

theorem analyze_sales_data_never_empty:
  "(\<forall>analysis rt'.
      analyze_sales_data env prompt data rt = (Inr analysis, rt') \<longrightarrow>
      analysis \<noteq> []
      \<and> (function_name tc = ''analyze_sales_data'' \<and>
           json_loads env (function_arguments tc) = Inr function_args \<and>
           keyword_arguments [''prompt'', ''data''] function_args = Inr [prompt, data] \<longrightarrow>
           handle_tool_calls_loop env (tc # rest) (ms, rt) =
             handle_tool_calls_loop env rest
               (ms @ [Dict [(''role'', PStr ''tool''),
                            (''content'', PStr analysis),
                            (''tool_call_id'', PStr (call_id tc))]],
                rt')))
   \<and> (chat_completions_create env False
          [user_message (DATA_ANALYSIS_PROMPT (fmt env data) (fmt env prompt))] (world rt)
        = (Inr (message # others), w) \<longrightarrow>
      fst (analyze_sales_data env prompt data rt) =
        Inr (if content message = None \<or> content message = Some []
             then ''No analysis could be generated''
             else the (content message)))"
proof (intro conjI allI impI)
  fix analysis rt'
  assume a: "analyze_sales_data env prompt data rt = (Inr analysis, rt')"
  then show "analysis \<noteq> []"
    by (auto simp: analyze_sales_data_eq getitem0_def Let_def
             split: prod.splits sum.splits list.splits option.splits if_splits)
  assume "function_name tc = ''analyze_sales_data'' \<and>
           json_loads env (function_arguments tc) = Inr function_args \<and>
           keyword_arguments [''prompt'', ''data''] function_args = Inr [prompt, data]"
  then have "dispatch env tc rt = analyze_sales_data env prompt data rt"
    by (simp add: dispatch_analyze)
  with a show "handle_tool_calls_loop env (tc # rest) (ms, rt) =
             handle_tool_calls_loop env rest
               (ms @ [Dict [(''role'', PStr ''tool''),
                            (''content'', PStr analysis),
                            (''tool_call_id'', PStr (call_id tc))]],
                rt')"
    by (simp add: tool_message_def)
next
  assume "chat_completions_create env False
          [user_message (DATA_ANALYSIS_PROMPT (fmt env data) (fmt env prompt))] (world rt)
        = (Inr (message # others), w)"
  then show "fst (analyze_sales_data env prompt data rt) =
        Inr (if content message = None \<or> content message = Some []
             then ''No analysis could be generated''
             else the (content message))"
    by (auto simp: analyze_sales_data_eq getitem0_def Let_def split: option.splits)
qed

theorem analyze_sales_data_never_empty_witness:
  "fst (snd (handle_tool_calls_loop (scripted (\<lambda>n. Inr [ChatMessage None None]))
               [analyze_call] ([], start)))
     = [Dict [(''role'', PStr ''tool''),
              (''content'', PStr ''No analysis could be generated''),
              (''tool_call_id'', PStr ''call_7'')]]
   \<and> fst (snd (handle_tool_calls_loop (scripted (\<lambda>n. Inr [ChatMessage (Some []) None]))
               [analyze_call] ([], start)))
     = [Dict [(''role'', PStr ''tool''),
              (''content'', PStr ''No analysis could be generated''),
              (''tool_call_id'', PStr ''call_7'')]]
   \<and> fst (analyze_sales_data (scripted (\<lambda>n. Inr [ChatMessage (Some ''Sales rose.'') None]))
          (PStr ''how did sales do'') (PStr ''total 42'') start) = Inr ''Sales rose.''"
proof -
  let ?args = "PDict [(''data'', PStr ''total 42''), (''prompt'', PStr ''how did sales do'')]"
  have n: "function_name analyze_call = ''analyze_sales_data''"
    by (simp add: analyze_call_def)
  have k: "keyword_arguments [''prompt'', ''data''] ?args
             = Inr [PStr ''how did sales do'', PStr ''total 42'']"
    by (simp add: keyword_arguments_def insert_commute)
  have d: "json_loads (scripted script) (function_arguments analyze_call) = Inr ?args" for script
    by (simp add: scripted_defs analyze_call_def)
  from silent_analysis obtain rt1 where
    s: "analyze_sales_data (scripted (\<lambda>n. Inr [ChatMessage None None]))
          (PStr ''how did sales do'') (PStr ''total 42'') start
        = (Inr ''No analysis could be generated'', rt1)" by blast
  from analyze_sales_data_never_empty
         [where env = "scripted (\<lambda>n. Inr [ChatMessage None None])"
            and prompt = "PStr ''how did sales do''" and data = "PStr ''total 42''"
            and rt = start and tc = analyze_call and function_args = ?args
            and rest = "[]" and ms = "[]"]
       s n k d
  have first: "fst (snd (handle_tool_calls_loop (scripted (\<lambda>n. Inr [ChatMessage None None]))
               [analyze_call] ([], start)))
     = [Dict [(''role'', PStr ''tool''),
              (''content'', PStr ''No analysis could be generated''),
              (''tool_call_id'', PStr ''call_7'')]]"
    by (simp add: analyze_call_def)
  from empty_analysis obtain rt2 where
    e: "analyze_sales_data (scripted (\<lambda>n. Inr [ChatMessage (Some []) None]))
          (PStr ''how did sales do'') (PStr ''total 42'') start
        = (Inr ''No analysis could be generated'', rt2)" by blast
  from analyze_sales_data_never_empty
         [where env = "scripted (\<lambda>n. Inr [ChatMessage (Some []) None])"
            and prompt = "PStr ''how did sales do''" and data = "PStr ''total 42''"
            and rt = start and tc = analyze_call and function_args = ?args
            and rest = "[]" and ms = "[]"]
       e n k d
  have second: "fst (snd (handle_tool_calls_loop (scripted (\<lambda>n. Inr [ChatMessage (Some []) None]))
               [analyze_call] ([], start)))
     = [Dict [(''role'', PStr ''tool''),
              (''content'', PStr ''No analysis could be generated''),
              (''tool_call_id'', PStr ''call_7'')]]"
    by (simp add: analyze_call_def)
  from analyze_sales_data_never_empty
         [where env = "scripted (\<lambda>n. Inr [ChatMessage (Some ''Sales rose.'') None])"
            and prompt = "PStr ''how did sales do''" and data = "PStr ''total 42''"
            and rt = start and message = "ChatMessage (Some ''Sales rose.'') None"
            and others = "[]" and w = "Suc 0"]
  have third: "fst (analyze_sales_data (scripted (\<lambda>n. Inr [ChatMessage (Some ''Sales rose.'') None]))
          (PStr ''how did sales do'') (PStr ''total 42'') start) = Inr ''Sales rose.''"
    by (simp add: scripted_def start_def)
  from first second third show ?thesis by blast
qed

section \<open>The data entry of the chart configuration\<close>

text \<open>
  Claim C10. Once the structured-output call has returned, \<^verbatim>\<open>extract_chart_config\<close>
  returns a dict, in the branch that reads the configuration and in the fallback branch
  alike, with the five keys \<^verbatim>\<open>chart_type\<close>, \<^verbatim>\<open>x_axis\<close>, \<^verbatim>\<open>y_axis\<close>, \<^verbatim>\<open>title\<close> and
  \<^verbatim>\<open>data\<close>, the last one holding the data argument unchanged.
\<close>

theorem extract_chart_config_data_key:
  assumes "chat_completions_parse env
             [user_message (CHART_CONFIGURATION_PROMPT (fmt env data) (fmt env visualization_goal))]
             (world rt) = (Inr choices, w)"
  shows "\<exists>config rt'.
           extract_chart_config env data visualization_goal rt = (Inr config, rt')
           \<and> map fst config = [''chart_type'', ''x_axis'', ''y_axis'', ''title'', ''data'']
           \<and> map_of config ''data'' = Some data"
proof (cases "extract_chart_config_try choices data")
  case (Inl e)
  with assms show ?thesis by (simp add: extract_chart_config_eq Let_def)
next
  case (Inr config)
  with assms extract_chart_config_try_keys[OF Inr] show ?thesis
    by (simp add: extract_chart_config_eq Let_def)
qed

theorem extract_chart_config_data_key_witness:
  "(\<exists>config rt'.
     extract_chart_config (scripted sales_script) (PStr ''rows'') (PStr ''sales by week'') start
       = (Inr config, rt')
     \<and> map fst config = [''chart_type'', ''x_axis'', ''y_axis'', ''title'', ''data'']
     \<and> map_of config ''data'' = Some (PStr ''rows''))
   \<and> (\<exists>config rt'.
     extract_chart_config
       ((scripted sales_script)\<lparr>chat_completions_parse := \<lambda>messages n. (Inr [chart_object], Suc n)\<rparr>)
       (PStr ''rows'') (PStr ''sales by week'') start
       = (Inr config, rt')
     \<and> map fst config = [''chart_type'', ''x_axis'', ''y_axis'', ''title'', ''data'']
     \<and> map_of config ''data'' = Some (PStr ''rows''))"
  using extract_chart_config_data_key
          [where env = "scripted sales_script" and data = "PStr ''rows''"
             and visualization_goal = "PStr ''sales by week''" and rt = start
             and choices = "[[]]" and w = "Suc 0"]
        extract_chart_config_data_key
          [where env = "(scripted sales_script)\<lparr>chat_completions_parse :=
                          \<lambda>messages n. (Inr [chart_object], Suc n)\<rparr>"
             and data = "PStr ''rows''"
             and visualization_goal = "PStr ''sales by week''" and rt = start
             and choices = "[chart_object]" and w = "Suc 0"]
  by (simp add: scripted_def start_def)

end
